theory Spec2Isabelle
  imports Complex_Main "HOL-Library.Word"
begin

section \<open>The OpenGL state manager (GLStateManager.cpp)\<close>

subsection \<open>Native types and the enumerations of the cache\<close>

text \<open>
  A GL enumerant is written by the name of its constant, as the source writes it; the
  numbers behind the names live in the OpenGL headers. Handles (\<open>GLuint\<close>) are
  32-bit words; so are \<open>GLint\<close> and \<open>GLsizei\<close>, read in two's complement by
  \<open>sint\<close>. A finite \<open>GLfloat\<close> or \<open>GLdouble\<close> value is the real number it denotes;
  the arithmetic of the machine on such values is not fixed here (see \<open>GLfloatOps\<close>).
\<close>

type_synonym GLenum = string
type_synonym GLuint = "32 word"
type_synonym GLint = "32 word"
type_synonym GLsizei = "32 word"
type_synonym GLfloat = real
type_synonym GLdouble = real

text \<open>
  \<open>GLState\<close>, \<open>GLBufferTarget\<close> and \<open>GLTextureTarget\<close> are the enumerations that
  index the tables \<open>stateCapsMap\<close>, \<open>bufferTargetsMap\<close> and \<open>textureTargetsMap\<close>;
  their enumerators stand in the order of the tables' entries.
\<close>

datatype (plugins only: code) GLState =
    BLEND | COLOR_LOGIC_OP | CULL_FACE | DEBUG_OUTPUT | DEBUG_OUTPUT_SYNCHRONOUS
  | DEPTH_CLAMP | DEPTH_TEST | DITHER | FRAMEBUFFER_SRGB | LINE_SMOOTH | MULTISAMPLE
  | POLYGON_OFFSET_FILL | POLYGON_OFFSET_LINE | POLYGON_OFFSET_POINT | POLYGON_SMOOTH
  | PRIMITIVE_RESTART | PRIMITIVE_RESTART_FIXED_INDEX | RASTERIZER_DISCARD
  | SAMPLE_ALPHA_TO_COVERAGE | SAMPLE_ALPHA_TO_ONE | SAMPLE_COVERAGE | SAMPLE_SHADING
  | SAMPLE_MASK | SCISSOR_TEST | STENCIL_TEST | TEXTURE_CUBE_MAP_SEAMLESS
  | PROGRAM_POINT_SIZE

datatype GLBufferTarget =
    ARRAY_BUFFER | ATOMIC_COUNTER_BUFFER | COPY_READ_BUFFER | COPY_WRITE_BUFFER
  | DISPATCH_INDIRECT_BUFFER | DRAW_INDIRECT_BUFFER | ELEMENT_ARRAY_BUFFER
  | PIXEL_PACK_BUFFER | PIXEL_UNPACK_BUFFER | QUERY_BUFFER | SHADER_STORAGE_BUFFER
  | TEXTURE_BUFFER | TRANSFORM_FEEDBACK_BUFFER | UNIFORM_BUFFER

datatype GLTextureTarget =
    TEXTURE_1D | TEXTURE_2D | TEXTURE_3D | TEXTURE_1D_ARRAY | TEXTURE_2D_ARRAY
  | TEXTURE_RECTANGLE | TEXTURE_CUBE_MAP | TEXTURE_CUBE_MAP_ARRAY | TEXTURE_BUFFER_TARGET
  | TEXTURE_2D_MULTISAMPLE | TEXTURE_2D_MULTISAMPLE_ARRAY

fun stateCapsMap :: "GLState \<Rightarrow> GLenum" where
  "stateCapsMap BLEND = ''GL_BLEND''"
| "stateCapsMap COLOR_LOGIC_OP = ''GL_COLOR_LOGIC_OP''"
| "stateCapsMap CULL_FACE = ''GL_CULL_FACE''"
| "stateCapsMap DEBUG_OUTPUT = ''GL_DEBUG_OUTPUT''"
| "stateCapsMap DEBUG_OUTPUT_SYNCHRONOUS = ''GL_DEBUG_OUTPUT_SYNCHRONOUS''"
| "stateCapsMap DEPTH_CLAMP = ''GL_DEPTH_CLAMP''"
| "stateCapsMap DEPTH_TEST = ''GL_DEPTH_TEST''"
| "stateCapsMap DITHER = ''GL_DITHER''"
| "stateCapsMap FRAMEBUFFER_SRGB = ''GL_FRAMEBUFFER_SRGB''"
| "stateCapsMap LINE_SMOOTH = ''GL_LINE_SMOOTH''"
| "stateCapsMap MULTISAMPLE = ''GL_MULTISAMPLE''"
| "stateCapsMap POLYGON_OFFSET_FILL = ''GL_POLYGON_OFFSET_FILL''"
| "stateCapsMap POLYGON_OFFSET_LINE = ''GL_POLYGON_OFFSET_LINE''"
| "stateCapsMap POLYGON_OFFSET_POINT = ''GL_POLYGON_OFFSET_POINT''"
| "stateCapsMap POLYGON_SMOOTH = ''GL_POLYGON_SMOOTH''"
| "stateCapsMap PRIMITIVE_RESTART = ''GL_PRIMITIVE_RESTART''"
| "stateCapsMap PRIMITIVE_RESTART_FIXED_INDEX = ''GL_PRIMITIVE_RESTART_FIXED_INDEX''"
| "stateCapsMap RASTERIZER_DISCARD = ''GL_RASTERIZER_DISCARD''"
| "stateCapsMap SAMPLE_ALPHA_TO_COVERAGE = ''GL_SAMPLE_ALPHA_TO_COVERAGE''"
| "stateCapsMap SAMPLE_ALPHA_TO_ONE = ''GL_SAMPLE_ALPHA_TO_ONE''"
| "stateCapsMap SAMPLE_COVERAGE = ''GL_SAMPLE_COVERAGE''"
| "stateCapsMap SAMPLE_SHADING = ''GL_SAMPLE_SHADING''"
| "stateCapsMap SAMPLE_MASK = ''GL_SAMPLE_MASK''"
| "stateCapsMap SCISSOR_TEST = ''GL_SCISSOR_TEST''"
| "stateCapsMap STENCIL_TEST = ''GL_STENCIL_TEST''"
| "stateCapsMap TEXTURE_CUBE_MAP_SEAMLESS = ''GL_TEXTURE_CUBE_MAP_SEAMLESS''"
| "stateCapsMap PROGRAM_POINT_SIZE = ''GL_PROGRAM_POINT_SIZE''"

text \<open>The capabilities in index order, for the loop of \<open>Reset\<close> over \<open>i < numStates\<close>.\<close>

definition allStates :: "GLState list" where
  "allStates =
    [BLEND, COLOR_LOGIC_OP, CULL_FACE, DEBUG_OUTPUT, DEBUG_OUTPUT_SYNCHRONOUS,
     DEPTH_CLAMP, DEPTH_TEST, DITHER, FRAMEBUFFER_SRGB, LINE_SMOOTH, MULTISAMPLE,
     POLYGON_OFFSET_FILL, POLYGON_OFFSET_LINE, POLYGON_OFFSET_POINT, POLYGON_SMOOTH,
     PRIMITIVE_RESTART, PRIMITIVE_RESTART_FIXED_INDEX, RASTERIZER_DISCARD,
     SAMPLE_ALPHA_TO_COVERAGE, SAMPLE_ALPHA_TO_ONE, SAMPLE_COVERAGE, SAMPLE_SHADING,
     SAMPLE_MASK, SCISSOR_TEST, STENCIL_TEST, TEXTURE_CUBE_MAP_SEAMLESS,
     PROGRAM_POINT_SIZE]"

fun bufferTargetsMap :: "GLBufferTarget \<Rightarrow> GLenum" where
  "bufferTargetsMap ARRAY_BUFFER = ''GL_ARRAY_BUFFER''"
| "bufferTargetsMap ATOMIC_COUNTER_BUFFER = ''GL_ATOMIC_COUNTER_BUFFER''"
| "bufferTargetsMap COPY_READ_BUFFER = ''GL_COPY_READ_BUFFER''"
| "bufferTargetsMap COPY_WRITE_BUFFER = ''GL_COPY_WRITE_BUFFER''"
| "bufferTargetsMap DISPATCH_INDIRECT_BUFFER = ''GL_DISPATCH_INDIRECT_BUFFER''"
| "bufferTargetsMap DRAW_INDIRECT_BUFFER = ''GL_DRAW_INDIRECT_BUFFER''"
| "bufferTargetsMap ELEMENT_ARRAY_BUFFER = ''GL_ELEMENT_ARRAY_BUFFER''"
| "bufferTargetsMap PIXEL_PACK_BUFFER = ''GL_PIXEL_PACK_BUFFER''"
| "bufferTargetsMap PIXEL_UNPACK_BUFFER = ''GL_PIXEL_UNPACK_BUFFER''"
| "bufferTargetsMap QUERY_BUFFER = ''GL_QUERY_BUFFER''"
| "bufferTargetsMap SHADER_STORAGE_BUFFER = ''GL_SHADER_STORAGE_BUFFER''"
| "bufferTargetsMap TEXTURE_BUFFER = ''GL_TEXTURE_BUFFER''"
| "bufferTargetsMap TRANSFORM_FEEDBACK_BUFFER = ''GL_TRANSFORM_FEEDBACK_BUFFER''"
| "bufferTargetsMap UNIFORM_BUFFER = ''GL_UNIFORM_BUFFER''"

fun textureTargetsMap :: "GLTextureTarget \<Rightarrow> GLenum" where
  "textureTargetsMap TEXTURE_1D = ''GL_TEXTURE_1D''"
| "textureTargetsMap TEXTURE_2D = ''GL_TEXTURE_2D''"
| "textureTargetsMap TEXTURE_3D = ''GL_TEXTURE_3D''"
| "textureTargetsMap TEXTURE_1D_ARRAY = ''GL_TEXTURE_1D_ARRAY''"
| "textureTargetsMap TEXTURE_2D_ARRAY = ''GL_TEXTURE_2D_ARRAY''"
| "textureTargetsMap TEXTURE_RECTANGLE = ''GL_TEXTURE_RECTANGLE''"
| "textureTargetsMap TEXTURE_CUBE_MAP = ''GL_TEXTURE_CUBE_MAP''"
| "textureTargetsMap TEXTURE_CUBE_MAP_ARRAY = ''GL_TEXTURE_CUBE_MAP_ARRAY''"
| "textureTargetsMap TEXTURE_BUFFER_TARGET = ''GL_TEXTURE_BUFFER''"
| "textureTargetsMap TEXTURE_2D_MULTISAMPLE = ''GL_TEXTURE_2D_MULTISAMPLE''"
| "textureTargetsMap TEXTURE_2D_MULTISAMPLE_ARRAY = ''GL_TEXTURE_2D_MULTISAMPLE_ARRAY''"

text \<open>
  \<open>textureLayersMap\<close> has 32 entries, \<open>GL_TEXTURE0\<close> to \<open>GL_TEXTURE31\<close>; the cache keeps
  one table of texture bindings for each of them.
\<close>

definition textureLayersMap :: "GLenum list" where
  "textureLayersMap =
    [''GL_TEXTURE0'', ''GL_TEXTURE1'', ''GL_TEXTURE2'', ''GL_TEXTURE3'',
     ''GL_TEXTURE4'', ''GL_TEXTURE5'', ''GL_TEXTURE6'', ''GL_TEXTURE7'',
     ''GL_TEXTURE8'', ''GL_TEXTURE9'', ''GL_TEXTURE10'', ''GL_TEXTURE11'',
     ''GL_TEXTURE12'', ''GL_TEXTURE13'', ''GL_TEXTURE14'', ''GL_TEXTURE15'',
     ''GL_TEXTURE16'', ''GL_TEXTURE17'', ''GL_TEXTURE18'', ''GL_TEXTURE19'',
     ''GL_TEXTURE20'', ''GL_TEXTURE21'', ''GL_TEXTURE22'', ''GL_TEXTURE23'',
     ''GL_TEXTURE24'', ''GL_TEXTURE25'', ''GL_TEXTURE26'', ''GL_TEXTURE27'',
     ''GL_TEXTURE28'', ''GL_TEXTURE29'', ''GL_TEXTURE30'', ''GL_TEXTURE31'']"

definition numTextureLayers :: nat where
  "numTextureLayers = 32"

subsection \<open>The native calls\<close>

text \<open>
  The structures handed to the setters. \<open>GLViewport\<close>, \<open>GLDepthRange\<close>, \<open>GLScissor\<close>,
  \<open>GLBlend\<close> and \<open>GLStencil\<close> carry the fields the source reads.
\<close>

record GLViewport =
  vp_x :: GLfloat
  vp_y :: GLfloat
  vp_width :: GLfloat
  vp_height :: GLfloat

record GLDepthRange =
  minDepth :: GLdouble
  maxDepth :: GLdouble

record GLScissor =
  sc_x :: GLint
  sc_y :: GLint
  sc_width :: GLsizei
  sc_height :: GLsizei

record ColorRGBAb =
  r_c :: bool
  g_c :: bool
  b_c :: bool
  a_c :: bool

record GLBlend =
  srcColor :: GLenum
  destColor :: GLenum
  srcAlpha :: GLenum
  destAlpha :: GLenum
  colorMask :: ColorRGBAb

record GLStencil =
  func :: GLenum
  sfail :: GLenum
  dpfail :: GLenum
  dppass :: GLenum
  ref :: GLint
  mask_s :: GLuint
  writeMask :: GLuint

text \<open>
  Every call into the driver that the state manager makes, with its arguments. An
  operation of the cache appends the calls it issues to the log \<open>calls\<close> of the
  state, in the order it issues them.
\<close>

datatype (plugins only: code) gl_call =
    GlIsEnabled GLenum
  | GlEnable GLenum
  | GlDisable GLenum
  | GlViewport GLint GLint GLsizei GLsizei
  | GlViewportArrayv GLuint GLsizei "GLViewport list"
  | GlDepthRange GLdouble GLdouble
  | GlDepthRangeArrayv GLuint GLsizei "GLDepthRange list"
  | GlScissor GLint GLint GLsizei GLsizei
  | GlScissorArrayv GLuint GLsizei "GLScissor list"
  | GlColorMask bool bool bool bool
  | GlBlendFuncSeparate GLenum GLenum GLenum GLenum
  | GlColorMaski GLuint bool bool bool bool
  | GlBlendFuncSeparatei GLuint GLenum GLenum GLenum GLenum
  | GlDrawBuffer GLuint
  | GlDepthFunc GLenum
  | GlStencilOpSeparate GLenum GLenum GLenum GLenum
  | GlStencilFuncSeparate GLenum GLenum GLint GLuint
  | GlStencilMaskSeparate GLenum GLuint
  | GlPolygonMode GLenum GLenum
  | GlCullFace GLenum
  | GlFrontFace GLenum
  | GlDepthMask bool
  | GlBindBuffer GLenum GLuint
  | GlBindBufferBase GLenum GLuint GLuint
  | GlBindVertexArray GLuint
  | GlActiveTexture GLenum
  | GlBindTexture GLenum GLuint
  | GlUseProgram GLuint

text \<open>
  The optional entry points of the driver that the setters test against null before
  they use them.
\<close>

record GLExtensions =
  has_glViewportArrayv :: bool
  has_glDepthRangeArrayv :: bool
  has_glScissorArrayv :: bool
  has_glBlendFuncSeparatei :: bool
  has_glColorMaski :: bool

subsection \<open>The state of a GLStateManager\<close>

text \<open>
  The members of the class. A table indexed by an enumeration is a function on it; the
  texture layers are indexed by their number, and the operations that take a layer
  number reject one that is not below \<open>numTextureLayers\<close>. A \<open>std::stack\<close> is a list
  with its top at the head. The members of the nested structures (\<open>renderState_\<close>,
  \<open>bufferState_\<close>, \<open>textureState_\<close>, \<open>shaderState_\<close>) stand side by side in one record,
  and a member whose name Isabelle reserves or already uses carries a suffix
  (\<open>values_s\<close>, \<open>mask_s\<close>, \<open>r_c\<close>). \<open>activeTextureLayer_\<close> points into
  \<open>textureState_.layers\<close> and is kept as the index of the layer it points to. \<open>calls\<close>
  is the log of the native calls issued so far.
\<close>

record GLCommonState =
  depthFunc :: GLenum
  stencil_front :: GLStencil
  stencil_back :: GLStencil
  polygonMode :: GLenum
  cullFace :: GLenum
  frontFace :: GLenum
  depthMask :: bool
  cs_colorMask :: ColorRGBAb

record GLStateManager =
  values_s :: "GLState \<Rightarrow> bool"
  valueStack :: "(GLState \<times> bool) list"
  commonState :: GLCommonState
  boundBuffers :: "GLBufferTarget \<Rightarrow> GLuint"
  boundBufferStack :: "(GLBufferTarget \<times> GLuint) list"
  activeTexture :: nat
  layers :: "nat \<Rightarrow> GLTextureTarget \<Rightarrow> GLuint"
  boundTextureStack :: "(nat \<times> GLTextureTarget \<times> GLuint) list"
  activeTextureLayer :: nat
  boundProgram :: GLuint
  boundProgramStack :: "GLuint list"
  currentContextHeight :: GLint
  emulateClipControl :: bool
  calls :: "gl_call list"

definition issue :: "gl_call \<Rightarrow> GLStateManager \<Rightarrow> GLStateManager" where
  "issue c s = s\<lparr>calls := calls s @ [c]\<rparr>"

subsection \<open>Boolean states\<close>

definition Set :: "GLState \<Rightarrow> bool \<Rightarrow> GLStateManager \<Rightarrow> GLStateManager" where
  "Set state value s =
    (if values_s s state \<noteq> value
     then (let s1 = s\<lparr>values_s := (values_s s)(state := value)\<rparr>
           in if value then issue (GlEnable (stateCapsMap state)) s1
              else issue (GlDisable (stateCapsMap state)) s1)
     else s)"

definition Enable :: "GLState \<Rightarrow> GLStateManager \<Rightarrow> GLStateManager" where
  "Enable state s =
    (if \<not> values_s s state
     then issue (GlEnable (stateCapsMap state)) (s\<lparr>values_s := (values_s s)(state := True)\<rparr>)
     else s)"

definition Disable :: "GLState \<Rightarrow> GLStateManager \<Rightarrow> GLStateManager" where
  "Disable state s =
    (if values_s s state
     then issue (GlDisable (stateCapsMap state)) (s\<lparr>values_s := (values_s s)(state := False)\<rparr>)
     else s)"

definition IsEnabled :: "GLState \<Rightarrow> GLStateManager \<Rightarrow> bool" where
  "IsEnabled state s = values_s s state"

definition PushState :: "GLState \<Rightarrow> GLStateManager \<Rightarrow> GLStateManager" where
  "PushState state s = s\<lparr>valueStack := (state, values_s s state) # valueStack s\<rparr>"

text \<open>
  \<open>top()\<close> and \<open>pop()\<close> on an empty \<open>std::stack\<close> are undefined; the model returns
  \<open>None\<close> there.
\<close>

definition PopState :: "GLStateManager \<Rightarrow> GLStateManager option" where
  "PopState s =
    (case valueStack s of
       [] \<Rightarrow> None
     | (state, enabled) # rest \<Rightarrow> Some ((Set state enabled s)\<lparr>valueStack := rest\<rparr>))"

fun PopStates :: "nat \<Rightarrow> GLStateManager \<Rightarrow> GLStateManager option" where
  "PopStates 0 s = Some s"
| "PopStates (Suc count) s =
    (case PopState s of None \<Rightarrow> None | Some s1 \<Rightarrow> PopStates count s1)"

subsection \<open>Common states\<close>

text \<open>
  The floating-point arithmetic that \<open>AdjustViewport\<close> uses: the conversion
  \<open>static_cast<GLfloat>\<close> of a \<open>GLint\<close> and the subtraction of two \<open>GLfloat\<close>
  values, each with the rounding of the machine. They are parameters of the model.
\<close>

record GLfloatOps =
  float_of_GLint :: "GLint \<Rightarrow> GLfloat"
  float_sub :: "GLfloat \<Rightarrow> GLfloat \<Rightarrow> GLfloat"

text \<open>
  \<open>static_cast<GLint>\<close> of a float drops the fraction; it is undefined when the result
  is not a value of \<open>GLint\<close>, and so is a \<open>GLint\<close> subtraction that overflows: \<open>None\<close>.

  \<open>SetViewports\<close> and \<open>SetScissors\<close> take their vector by reference and, when the
  clip control is emulated, adjust its elements in place before they hand them to the
  driver. The model hands the adjusted elements to the driver; it does not return the
  caller's vector.
\<close>

definition in_GLint :: "int \<Rightarrow> bool" where
  "in_GLint i = (- (2 ^ 31) \<le> i \<and> i < 2 ^ 31)"

definition GLint_of_float :: "GLfloat \<Rightarrow> GLint option" where
  "GLint_of_float x =
    (let i = (if 0 \<le> x then \<lfloor>x\<rfloor> else \<lceil>x\<rceil>)
     in if in_GLint i then Some (word_of_int i) else None)"

definition AdjustViewport :: "GLfloatOps \<Rightarrow> GLStateManager \<Rightarrow> GLViewport \<Rightarrow> GLViewport" where
  "AdjustViewport fl s viewport =
    viewport\<lparr>vp_y :=
      float_sub fl
        (float_sub fl (float_of_GLint fl (currentContextHeight s)) (vp_height viewport))
        (vp_y viewport)\<rparr>"

definition SetViewports :: "GLfloatOps \<Rightarrow> GLExtensions \<Rightarrow> GLViewport list \<Rightarrow> GLStateManager \<Rightarrow> GLStateManager option" where
  "SetViewports fl ext viewports s =
    (if length viewports = 1
     then (let vp0 = hd viewports;
               vp = (if emulateClipControl s then AdjustViewport fl s vp0 else vp0)
           in case GLint_of_float (vp_x vp) of None \<Rightarrow> None | Some x \<Rightarrow>
              (case GLint_of_float (vp_y vp) of None \<Rightarrow> None | Some y \<Rightarrow>
              (case GLint_of_float (vp_width vp) of None \<Rightarrow> None | Some w \<Rightarrow>
              (case GLint_of_float (vp_height vp) of None \<Rightarrow> None | Some h \<Rightarrow>
                 Some (issue (GlViewport x y w h) s)))))
     else if length viewports > 1 \<and> has_glViewportArrayv ext
     then (let vps = (if emulateClipControl s then map (AdjustViewport fl s) viewports
                      else viewports)
           in Some (issue (GlViewportArrayv 0 (of_nat (length vps)) vps) s))
     else Some s)"

definition SetDepthRanges :: "GLExtensions \<Rightarrow> GLDepthRange list \<Rightarrow> GLStateManager \<Rightarrow> GLStateManager" where
  "SetDepthRanges ext depthRanges s =
    (if length depthRanges = 1
     then (let dr = hd depthRanges in issue (GlDepthRange (minDepth dr) (maxDepth dr)) s)
     else if length depthRanges > 1 \<and> has_glDepthRangeArrayv ext
     then issue (GlDepthRangeArrayv 0 (of_nat (length depthRanges)) depthRanges) s
     else s)"

definition AdjustScissor :: "GLStateManager \<Rightarrow> GLScissor \<Rightarrow> GLScissor option" where
  "AdjustScissor s scissor =
    (let d1 = sint (currentContextHeight s) - sint (sc_height scissor);
         d2 = d1 - sint (sc_y scissor)
     in if in_GLint d1 \<and> in_GLint d2 then Some (scissor\<lparr>sc_y := word_of_int d2\<rparr>)
        else None)"

definition SetScissors :: "GLExtensions \<Rightarrow> GLScissor list \<Rightarrow> GLStateManager \<Rightarrow> GLStateManager option" where
  "SetScissors ext scissors s =
    (if length scissors = 1
     then (let sc0 = hd scissors
           in case (if emulateClipControl s then AdjustScissor s sc0 else Some sc0) of
                None \<Rightarrow> None
              | Some sc \<Rightarrow>
                  Some (issue (GlScissor (sc_x sc) (sc_y sc) (sc_width sc) (sc_height sc)) s))
     else if length scissors > 1 \<and> has_glScissorArrayv ext
     then (case (if emulateClipControl s then those (map (AdjustScissor s) scissors)
                 else Some scissors) of
             None \<Rightarrow> None
           | Some scs \<Rightarrow> Some (issue (GlScissorArrayv 0 (of_nat (length scs)) scs) s))
     else Some s)"

text \<open>
  \<open>GL_COLOR_ATTACHMENT0\<close> is the one enumerant the source computes with
  (\<open>drawBuffer++\<close>), and \<open>SetBlendState\<close> takes the draw buffer as a \<open>GLuint\<close>: it is
  held by its number in the OpenGL headers.
\<close>

definition GL_COLOR_ATTACHMENT0 :: GLuint where
  "GL_COLOR_ATTACHMENT0 = 0x8CE0"

definition SetBlendState :: "GLExtensions \<Rightarrow> GLuint \<Rightarrow> GLBlend \<Rightarrow> bool \<Rightarrow> GLStateManager \<Rightarrow> GLStateManager" where
  "SetBlendState ext drawBuffer state blendEnabled s =
    (let cm = colorMask state in
     if has_glBlendFuncSeparatei ext \<and> has_glColorMaski ext
     then (let s1 = issue (GlColorMaski drawBuffer (r_c cm) (g_c cm) (b_c cm) (a_c cm)) s
           in if blendEnabled
              then issue (GlBlendFuncSeparatei drawBuffer (srcColor state) (destColor state)
                            (srcAlpha state) (destAlpha state)) s1
              else s1)
     else (let s1 = issue (GlDrawBuffer drawBuffer) s;
               s2 = issue (GlColorMask (r_c cm) (g_c cm) (b_c cm) (a_c cm)) s1
           in if blendEnabled
              then issue (GlBlendFuncSeparate (srcColor state) (destColor state)
                            (srcAlpha state) (destAlpha state)) s2
              else s2))"

text \<open>The loop of \<open>SetBlendStates\<close> over the states, \<open>drawBuffer\<close> counting up.\<close>

fun SetBlendStates_loop :: "GLExtensions \<Rightarrow> GLuint \<Rightarrow> GLBlend list \<Rightarrow> bool \<Rightarrow> GLStateManager \<Rightarrow> GLStateManager" where
  "SetBlendStates_loop ext drawBuffer [] blendEnabled s = s"
| "SetBlendStates_loop ext drawBuffer (state # rest) blendEnabled s =
    SetBlendStates_loop ext (drawBuffer + 1) rest blendEnabled
      (SetBlendState ext drawBuffer state blendEnabled s)"

definition SetBlendStates :: "GLExtensions \<Rightarrow> GLBlend list \<Rightarrow> bool \<Rightarrow> GLStateManager \<Rightarrow> GLStateManager" where
  "SetBlendStates ext blendStates blendEnabled s =
    (if length blendStates = 1
     then (let state = hd blendStates;
               cm = colorMask state;
               s1 = (if cs_colorMask (commonState s) \<noteq> cm
                     then issue (GlColorMask (r_c cm) (g_c cm) (b_c cm) (a_c cm))
                            (s\<lparr>commonState := (commonState s)\<lparr>cs_colorMask := cm\<rparr>\<rparr>)
                     else s)
           in if blendEnabled
              then issue (GlBlendFuncSeparate (srcColor state) (destColor state)
                            (srcAlpha state) (destAlpha state)) s1
              else s1)
     else if length blendStates > 1
     then SetBlendStates_loop ext GL_COLOR_ATTACHMENT0 blendStates blendEnabled s
     else s)"

definition SetClipControl :: "GLenum \<Rightarrow> GLenum \<Rightarrow> GLStateManager \<Rightarrow> GLStateManager" where
  "SetClipControl origin depth s = s\<lparr>emulateClipControl := (origin = ''GL_UPPER_LEFT'')\<rparr>"

definition SetDepthFunc :: "GLenum \<Rightarrow> GLStateManager \<Rightarrow> GLStateManager" where
  "SetDepthFunc f s =
    (if depthFunc (commonState s) \<noteq> f
     then issue (GlDepthFunc f) (s\<lparr>commonState := (commonState s)\<lparr>depthFunc := f\<rparr>\<rparr>)
     else s)"

text \<open>
  The private overload \<open>SetStencilState(face, to, from)\<close> works on one mirrored
  \<open>GLStencil\<close> by reference: it returns the mirror as it leaves it and the calls it
  issued, in order.
\<close>

definition SetStencilState_to :: "GLenum \<Rightarrow> GLStencil \<Rightarrow> GLStencil \<Rightarrow> GLStencil \<times> gl_call list" where
  "SetStencilState_to face to from =
    (let (to1, cs1) =
           (if sfail to \<noteq> sfail from \<or> dpfail to \<noteq> dpfail from \<or> dppass to \<noteq> dppass from
            then (to\<lparr>sfail := sfail from, dpfail := dpfail from, dppass := dppass from\<rparr>,
                  [GlStencilOpSeparate face (sfail from) (dpfail from) (dppass from)])
            else (to, []));
         (to2, cs2) =
           (if func to1 \<noteq> func from \<or> ref to1 \<noteq> ref from \<or> mask_s to1 \<noteq> mask_s from
            then (to1\<lparr>func := func from, ref := ref from, mask_s := mask_s from\<rparr>,
                  cs1 @ [GlStencilFuncSeparate face (func from) (ref from) (mask_s from)])
            else (to1, cs1))
     in if writeMask to2 \<noteq> writeMask from
        then (to2\<lparr>writeMask := writeMask from\<rparr>,
              cs2 @ [GlStencilMaskSeparate face (writeMask from)])
        else (to2, cs2))"

definition SetStencilState_front :: "GLStencil \<Rightarrow> GLStateManager \<Rightarrow> GLStateManager" where
  "SetStencilState_front state s =
    (let (to, cs) = SetStencilState_to ''GL_FRONT'' (stencil_front (commonState s)) state
     in s\<lparr>commonState := (commonState s)\<lparr>stencil_front := to\<rparr>, calls := calls s @ cs\<rparr>)"

definition SetStencilState_back :: "GLStencil \<Rightarrow> GLStateManager \<Rightarrow> GLStateManager" where
  "SetStencilState_back state s =
    (let (to, cs) = SetStencilState_to ''GL_BACK'' (stencil_back (commonState s)) state
     in s\<lparr>commonState := (commonState s)\<lparr>stencil_back := to\<rparr>, calls := calls s @ cs\<rparr>)"

definition SetStencilState :: "GLenum \<Rightarrow> GLStencil \<Rightarrow> GLStateManager \<Rightarrow> GLStateManager" where
  "SetStencilState face state s =
    (if face = ''GL_FRONT'' then SetStencilState_front state s
     else if face = ''GL_BACK'' then SetStencilState_back state s
     else if face = ''GL_FRONT_AND_BACK''
     then SetStencilState_back state (SetStencilState_front state s)
     else s)"

definition SetPolygonMode :: "GLenum \<Rightarrow> GLStateManager \<Rightarrow> GLStateManager" where
  "SetPolygonMode mode s =
    (if polygonMode (commonState s) \<noteq> mode
     then issue (GlPolygonMode ''GL_FRONT_AND_BACK'' mode)
            (s\<lparr>commonState := (commonState s)\<lparr>polygonMode := mode\<rparr>\<rparr>)
     else s)"

definition SetCullFace :: "GLenum \<Rightarrow> GLStateManager \<Rightarrow> GLStateManager" where
  "SetCullFace face s =
    (if cullFace (commonState s) \<noteq> face
     then issue (GlCullFace face) (s\<lparr>commonState := (commonState s)\<lparr>cullFace := face\<rparr>\<rparr>)
     else s)"

definition SetFrontFace :: "GLenum \<Rightarrow> GLStateManager \<Rightarrow> GLStateManager" where
  "SetFrontFace mode s =
    (if frontFace (commonState s) \<noteq> mode
     then issue (GlFrontFace mode) (s\<lparr>commonState := (commonState s)\<lparr>frontFace := mode\<rparr>\<rparr>)
     else s)"

definition SetDepthMask :: "bool \<Rightarrow> GLStateManager \<Rightarrow> GLStateManager" where
  "SetDepthMask flag s =
    (if depthMask (commonState s) \<noteq> flag
     then issue (GlDepthMask flag) (s\<lparr>commonState := (commonState s)\<lparr>depthMask := flag\<rparr>\<rparr>)
     else s)"

subsection \<open>Buffer binding\<close>

definition BindBuffer :: "GLBufferTarget \<Rightarrow> GLuint \<Rightarrow> GLStateManager \<Rightarrow> GLStateManager" where
  "BindBuffer target buffer s =
    (if boundBuffers s target \<noteq> buffer
     then issue (GlBindBuffer (bufferTargetsMap target) buffer)
            (s\<lparr>boundBuffers := (boundBuffers s)(target := buffer)\<rparr>)
     else s)"

definition BindBufferBase :: "GLBufferTarget \<Rightarrow> GLuint \<Rightarrow> GLuint \<Rightarrow> GLStateManager \<Rightarrow> GLStateManager" where
  "BindBufferBase target index buffer s =
    issue (GlBindBufferBase (bufferTargetsMap target) index buffer)
      (s\<lparr>boundBuffers := (boundBuffers s)(target := buffer)\<rparr>)"

definition BindVertexArray :: "GLuint \<Rightarrow> GLStateManager \<Rightarrow> GLStateManager" where
  "BindVertexArray buffer s =
    (let s1 = issue (GlBindVertexArray buffer) s;
         s2 = s1\<lparr>boundBuffers := (boundBuffers s1)(ARRAY_BUFFER := 0)\<rparr>
     in s2\<lparr>boundBuffers := (boundBuffers s2)(ELEMENT_ARRAY_BUFFER := 0)\<rparr>)"

definition ForcedBindBuffer :: "GLBufferTarget \<Rightarrow> GLuint \<Rightarrow> GLStateManager \<Rightarrow> GLStateManager" where
  "ForcedBindBuffer target buffer s =
    issue (GlBindBuffer (bufferTargetsMap target) buffer)
      (s\<lparr>boundBuffers := (boundBuffers s)(target := buffer)\<rparr>)"

definition PushBoundBuffer :: "GLBufferTarget \<Rightarrow> GLStateManager \<Rightarrow> GLStateManager" where
  "PushBoundBuffer target s =
    s\<lparr>boundBufferStack := (target, boundBuffers s target) # boundBufferStack s\<rparr>"

definition PopBoundBuffer :: "GLStateManager \<Rightarrow> GLStateManager option" where
  "PopBoundBuffer s =
    (case boundBufferStack s of
       [] \<Rightarrow> None
     | (target, buffer) # rest \<Rightarrow> Some ((BindBuffer target buffer s)\<lparr>boundBufferStack := rest\<rparr>))"

text \<open>
  The overloads for buffer objects read the object's hardware id
  (\<open>hwBuffer.GetID()\<close>), which is their argument here.
\<close>

definition BindBuffer_vertexBuffer :: "GLuint \<Rightarrow> GLStateManager \<Rightarrow> GLStateManager" where
  "BindBuffer_vertexBuffer hwBufferID s = BindBuffer ARRAY_BUFFER hwBufferID s"

definition BindBuffer_indexBuffer :: "GLuint \<Rightarrow> GLStateManager \<Rightarrow> GLStateManager" where
  "BindBuffer_indexBuffer hwBufferID s = BindBuffer ELEMENT_ARRAY_BUFFER hwBufferID s"

definition BindBuffer_constantBuffer :: "GLuint \<Rightarrow> GLStateManager \<Rightarrow> GLStateManager" where
  "BindBuffer_constantBuffer hwBufferID s = BindBuffer UNIFORM_BUFFER hwBufferID s"

subsection \<open>Texture binding\<close>

text \<open>
  A layer number that is not below \<open>numTextureLayers\<close> indexes \<open>textureState_.layers\<close>
  and \<open>textureLayersMap\<close> out of range, which is undefined in the source: \<open>None\<close>.
\<close>

definition ActiveTexture :: "nat \<Rightarrow> GLStateManager \<Rightarrow> GLStateManager option" where
  "ActiveTexture layer s =
    (if activeTexture s \<noteq> layer
     then (if layer < numTextureLayers
           then Some (issue (GlActiveTexture (textureLayersMap ! layer))
                        (s\<lparr>activeTexture := layer, activeTextureLayer := layer\<rparr>))
           else None)
     else Some s)"

definition BindTexture :: "GLTextureTarget \<Rightarrow> GLuint \<Rightarrow> GLStateManager \<Rightarrow> GLStateManager" where
  "BindTexture target texture s =
    (let l = activeTextureLayer s in
     if layers s l target \<noteq> texture
     then issue (GlBindTexture (textureTargetsMap target) texture)
            (s\<lparr>layers := (layers s)(l := (layers s l)(target := texture))\<rparr>)
     else s)"

definition ForcedBindTexture :: "GLTextureTarget \<Rightarrow> GLuint \<Rightarrow> GLStateManager \<Rightarrow> GLStateManager" where
  "ForcedBindTexture target texture s =
    (let l = activeTextureLayer s in
     issue (GlBindTexture (textureTargetsMap target) texture)
       (s\<lparr>layers := (layers s)(l := (layers s l)(target := texture))\<rparr>))"

definition PushBoundTexture :: "nat \<Rightarrow> GLTextureTarget \<Rightarrow> GLStateManager \<Rightarrow> GLStateManager option" where
  "PushBoundTexture layer target s =
    (if layer < numTextureLayers
     then Some (s\<lparr>boundTextureStack := (layer, target, layers s layer target) # boundTextureStack s\<rparr>)
     else None)"

definition PopBoundTexture :: "GLStateManager \<Rightarrow> GLStateManager option" where
  "PopBoundTexture s =
    (case boundTextureStack s of
       [] \<Rightarrow> None
     | (layer, target, texture) # rest \<Rightarrow>
         (case ActiveTexture layer s of
            None \<Rightarrow> None
          | Some s1 \<Rightarrow> Some ((BindTexture target texture s1)\<lparr>boundTextureStack := rest\<rparr>)))"

text \<open>
  \<open>TextureType\<close> is declared in a header that is not among the sources. Its
  enumerators here are the seven that \<open>GetTextureTarget\<close> names, \<open>Texture2DMS\<close>, which
  TextureFlags.cpp names, and \<open>OtherTextureType n\<close> for any further value of the
  enumeration: the \<open>default\<close> branch of the switch takes them all.
\<close>

datatype TextureType =
    Texture1D | Texture2D | Texture3D | TextureCube | Texture1DArray | Texture2DArray
  | TextureCubeArray | Texture2DMS | OtherTextureType nat

datatype error = invalid_argument string

fun GetTextureTarget :: "TextureType \<Rightarrow> error + GLTextureTarget" where
  "GetTextureTarget Texture1D = Inr TEXTURE_1D"
| "GetTextureTarget Texture2D = Inr TEXTURE_2D"
| "GetTextureTarget Texture3D = Inr TEXTURE_3D"
| "GetTextureTarget TextureCube = Inr TEXTURE_CUBE_MAP"
| "GetTextureTarget Texture1DArray = Inr TEXTURE_1D_ARRAY"
| "GetTextureTarget Texture2DArray = Inr TEXTURE_2D_ARRAY"
| "GetTextureTarget TextureCubeArray = Inr TEXTURE_CUBE_MAP_ARRAY"
| "GetTextureTarget _ =
    Inl (invalid_argument ''failed to convert texture type to OpenGL texture target'')"

text \<open>
  A texture object, by what \<open>GetType()\<close> and \<open>GetID()\<close> return. When the conversion
  throws, the exception leaves the method with the state manager as it then is, which
  the result carries beside the exception.
\<close>

record GLTexture =
  GetType :: TextureType
  GetID :: GLuint

definition BindTexture_tex :: "GLTexture \<Rightarrow> GLStateManager \<Rightarrow> error \<times> GLStateManager + GLStateManager" where
  "BindTexture_tex texture s =
    (case GetTextureTarget (GetType texture) of
       Inl e \<Rightarrow> Inl (e, s)
     | Inr target \<Rightarrow> Inr (BindTexture target (GetID texture) s))"

definition ForcedBindTexture_tex :: "GLTexture \<Rightarrow> GLStateManager \<Rightarrow> error \<times> GLStateManager + GLStateManager" where
  "ForcedBindTexture_tex texture s =
    (case GetTextureTarget (GetType texture) of
       Inl e \<Rightarrow> Inl (e, s)
     | Inr target \<Rightarrow> Inr (ForcedBindTexture target (GetID texture) s))"

subsection \<open>Shader binding\<close>

definition BindShaderProgram :: "GLuint \<Rightarrow> GLStateManager \<Rightarrow> GLStateManager" where
  "BindShaderProgram program s =
    (if boundProgram s \<noteq> program
     then issue (GlUseProgram program) (s\<lparr>boundProgram := program\<rparr>)
     else s)"

definition PushShaderProgram :: "GLStateManager \<Rightarrow> GLStateManager" where
  "PushShaderProgram s = s\<lparr>boundProgramStack := boundProgram s # boundProgramStack s\<rparr>"

definition PopShaderProgram :: "GLStateManager \<Rightarrow> GLStateManager option" where
  "PopShaderProgram s =
    (case boundProgramStack s of
       [] \<Rightarrow> None
     | program # rest \<Rightarrow> Some ((BindShaderProgram program s)\<lparr>boundProgramStack := rest\<rparr>))"

subsection \<open>Construction and reset\<close>

text \<open>
  The constructor runs on an object whose members hold what their declarations in
  GLStateManager.h give them; that header is not among the sources, so the members as
  they stand before the constructor's body are the parameter \<open>init\<close>. The body fills
  the three tables, points \<open>activeTextureLayer_\<close> at layer 0 and stores \<open>this\<close> (an
  address) in the static \<open>GLStateManager::active\<close>, whose old value is the third
  argument and whose new value is returned beside the object.
\<close>

definition GLStateManager_ctor :: "nat \<Rightarrow> GLStateManager \<Rightarrow> nat option \<Rightarrow> GLStateManager \<times> nat option" where
  "GLStateManager_ctor this init active =
    (init\<lparr>values_s := (\<lambda>state. False),
          boundBuffers := (\<lambda>target. 0),
          layers := (\<lambda>layer target. 0),
          activeTextureLayer := 0\<rparr>,
     Some this)"

definition MakeCurrentInfo :: "GLint \<Rightarrow> GLStateManager \<Rightarrow> GLStateManager" where
  "MakeCurrentInfo contextHeight s = s\<lparr>currentContextHeight := contextHeight\<rparr>"

text \<open>
  \<open>Reset\<close> asks the driver for every capability in turn; \<open>glIsEnabled\<close> is the
  driver's answer for each enumerant.
\<close>

fun Reset_loop :: "(GLenum \<Rightarrow> bool) \<Rightarrow> GLState list \<Rightarrow> GLStateManager \<Rightarrow> GLStateManager" where
  "Reset_loop glIsEnabled [] s = s"
| "Reset_loop glIsEnabled (state # rest) s =
    Reset_loop glIsEnabled rest
      ((issue (GlIsEnabled (stateCapsMap state)) s)
         \<lparr>values_s := (values_s s)(state := glIsEnabled (stateCapsMap state))\<rparr>)"

definition Reset :: "(GLenum \<Rightarrow> bool) \<Rightarrow> GLStateManager \<Rightarrow> GLStateManager" where
  "Reset glIsEnabled s = Reset_loop glIsEnabled allStates s"

subsection \<open>Sequences of operations\<close>

text \<open>
  A client drives the state manager by a sequence of calls of its public methods. A
  \<open>command\<close> is one such call with its arguments; \<open>exec\<close> runs one on a state and
  \<open>exec_all\<close> a sequence, which ends at the first call that is undefined or throws.
\<close>

datatype (plugins only: code) command =
    CReset
  | CSet GLState bool
  | CEnable GLState
  | CDisable GLState
  | CPushState GLState
  | CPopState
  | CPopStates nat
  | CMakeCurrentInfo GLint
  | CSetViewports "GLViewport list"
  | CSetDepthRanges "GLDepthRange list"
  | CSetScissors "GLScissor list"
  | CSetBlendStates "GLBlend list" bool
  | CSetClipControl GLenum GLenum
  | CSetDepthFunc GLenum
  | CSetStencilState GLenum GLStencil
  | CSetPolygonMode GLenum
  | CSetCullFace GLenum
  | CSetFrontFace GLenum
  | CSetDepthMask bool
  | CBindBuffer GLBufferTarget GLuint
  | CBindBufferBase GLBufferTarget GLuint GLuint
  | CBindVertexArray GLuint
  | CForcedBindBuffer GLBufferTarget GLuint
  | CPushBoundBuffer GLBufferTarget
  | CPopBoundBuffer
  | CActiveTexture nat
  | CBindTexture GLTextureTarget GLuint
  | CForcedBindTexture GLTextureTarget GLuint
  | CPushBoundTexture nat GLTextureTarget
  | CPopBoundTexture
  | CBindTexture_tex GLTexture
  | CForcedBindTexture_tex GLTexture
  | CBindShaderProgram GLuint
  | CPushShaderProgram
  | CPopShaderProgram

datatype failure = UndefinedBehaviour | Thrown error GLStateManager

definition defined :: "GLStateManager option \<Rightarrow> failure + GLStateManager" where
  "defined r = (case r of None \<Rightarrow> Inl UndefinedBehaviour | Some s \<Rightarrow> Inr s)"

definition thrown :: "error \<times> GLStateManager + GLStateManager \<Rightarrow> failure + GLStateManager" where
  "thrown r = (case r of Inl (e, s) \<Rightarrow> Inl (Thrown e s) | Inr s \<Rightarrow> Inr s)"

fun exec :: "GLfloatOps \<Rightarrow> GLExtensions \<Rightarrow> (GLenum \<Rightarrow> bool) \<Rightarrow> command \<Rightarrow> GLStateManager \<Rightarrow> failure + GLStateManager" where
  "exec fl ext drv CReset s = Inr (Reset drv s)"
| "exec fl ext drv (CSet state value) s = Inr (Set state value s)"
| "exec fl ext drv (CEnable state) s = Inr (Enable state s)"
| "exec fl ext drv (CDisable state) s = Inr (Disable state s)"
| "exec fl ext drv (CPushState state) s = Inr (PushState state s)"
| "exec fl ext drv CPopState s = defined (PopState s)"
| "exec fl ext drv (CPopStates n) s = defined (PopStates n s)"
| "exec fl ext drv (CMakeCurrentInfo h) s = Inr (MakeCurrentInfo h s)"
| "exec fl ext drv (CSetViewports vps) s = defined (SetViewports fl ext vps s)"
| "exec fl ext drv (CSetDepthRanges drs) s = Inr (SetDepthRanges ext drs s)"
| "exec fl ext drv (CSetScissors scs) s = defined (SetScissors ext scs s)"
| "exec fl ext drv (CSetBlendStates bs en) s = Inr (SetBlendStates ext bs en s)"
| "exec fl ext drv (CSetClipControl origin depth) s = Inr (SetClipControl origin depth s)"
| "exec fl ext drv (CSetDepthFunc f) s = Inr (SetDepthFunc f s)"
| "exec fl ext drv (CSetStencilState face st) s = Inr (SetStencilState face st s)"
| "exec fl ext drv (CSetPolygonMode mode) s = Inr (SetPolygonMode mode s)"
| "exec fl ext drv (CSetCullFace face) s = Inr (SetCullFace face s)"
| "exec fl ext drv (CSetFrontFace mode) s = Inr (SetFrontFace mode s)"
| "exec fl ext drv (CSetDepthMask flag) s = Inr (SetDepthMask flag s)"
| "exec fl ext drv (CBindBuffer target buffer) s = Inr (BindBuffer target buffer s)"
| "exec fl ext drv (CBindBufferBase target index buffer) s = Inr (BindBufferBase target index buffer s)"
| "exec fl ext drv (CBindVertexArray buffer) s = Inr (BindVertexArray buffer s)"
| "exec fl ext drv (CForcedBindBuffer target buffer) s = Inr (ForcedBindBuffer target buffer s)"
| "exec fl ext drv (CPushBoundBuffer target) s = Inr (PushBoundBuffer target s)"
| "exec fl ext drv CPopBoundBuffer s = defined (PopBoundBuffer s)"
| "exec fl ext drv (CActiveTexture layer) s = defined (ActiveTexture layer s)"
| "exec fl ext drv (CBindTexture target texture) s = Inr (BindTexture target texture s)"
| "exec fl ext drv (CForcedBindTexture target texture) s = Inr (ForcedBindTexture target texture s)"
| "exec fl ext drv (CPushBoundTexture layer target) s = defined (PushBoundTexture layer target s)"
| "exec fl ext drv CPopBoundTexture s = defined (PopBoundTexture s)"
| "exec fl ext drv (CBindTexture_tex texture) s = thrown (BindTexture_tex texture s)"
| "exec fl ext drv (CForcedBindTexture_tex texture) s = thrown (ForcedBindTexture_tex texture s)"
| "exec fl ext drv (CBindShaderProgram program) s = Inr (BindShaderProgram program s)"
| "exec fl ext drv CPushShaderProgram s = Inr (PushShaderProgram s)"
| "exec fl ext drv CPopShaderProgram s = defined (PopShaderProgram s)"

fun exec_all :: "GLfloatOps \<Rightarrow> GLExtensions \<Rightarrow> (GLenum \<Rightarrow> bool) \<Rightarrow> command list \<Rightarrow> GLStateManager \<Rightarrow> failure + GLStateManager" where
  "exec_all fl ext drv [] s = Inr s"
| "exec_all fl ext drv (c # cs) s =
    (case exec fl ext drv c s of Inl f \<Rightarrow> Inl f | Inr s1 \<Rightarrow> exec_all fl ext drv cs s1)"

subsection \<open>Balanced sequences\<close>

text \<open>
  What a command does to the depth of the stack of saved capabilities, and of the stack
  of saved buffer bindings: a push adds one entry and a pop takes one, which must be
  there. A sequence that starts at depth 0 and comes back to it, without ever popping
  an entry it did not push, lies between a push and its matching pop.
\<close>

fun valueStack_step :: "command \<Rightarrow> nat \<Rightarrow> nat option" where
  "valueStack_step (CPushState state) d = Some (Suc d)"
| "valueStack_step CPopState d = (if d = 0 then None else Some (d - 1))"
| "valueStack_step (CPopStates n) d = (if d < n then None else Some (d - n))"
| "valueStack_step c d = Some d"

fun valueStack_depth :: "command list \<Rightarrow> nat \<Rightarrow> nat option" where
  "valueStack_depth [] d = Some d"
| "valueStack_depth (c # cs) d =
    (case valueStack_step c d of None \<Rightarrow> None | Some d1 \<Rightarrow> valueStack_depth cs d1)"

fun boundBufferStack_step :: "command \<Rightarrow> nat \<Rightarrow> nat option" where
  "boundBufferStack_step (CPushBoundBuffer target) d = Some (Suc d)"
| "boundBufferStack_step CPopBoundBuffer d = (if d = 0 then None else Some (d - 1))"
| "boundBufferStack_step c d = Some d"

fun boundBufferStack_depth :: "command list \<Rightarrow> nat \<Rightarrow> nat option" where
  "boundBufferStack_depth [] d = Some d"
| "boundBufferStack_depth (c # cs) d =
    (case boundBufferStack_step c d of None \<Rightarrow> None | Some d1 \<Rightarrow> boundBufferStack_depth cs d1)"


subsection \<open>Example inputs\<close>

text \<open>
  The concrete inputs of the examples: an object as it may stand before its
  constructor runs (the OpenGL defaults in \<open>commonState_\<close>, stale values in the
  tables), the cache the constructor makes of it, a driver with every optional entry
  point, exact arithmetic for the floating-point operations (the examples use values on
  which the machine's arithmetic is exact), and arguments for the setters.
\<close>

definition example_stencil :: GLStencil where
  "example_stencil =
    \<lparr>func = ''GL_ALWAYS'', sfail = ''GL_KEEP'', dpfail = ''GL_KEEP'', dppass = ''GL_KEEP'',
     ref = 0, mask_s = 0xFFFFFFFF, writeMask = 0xFFFFFFFF\<rparr>"

definition example_init :: GLStateManager where
  "example_init =
    \<lparr>values_s = (\<lambda>state. True),
     valueStack = [],
     commonState =
       \<lparr>depthFunc = ''GL_LESS'', stencil_front = example_stencil, stencil_back = example_stencil,
        polygonMode = ''GL_FILL'', cullFace = ''GL_BACK'', frontFace = ''GL_CCW'',
        depthMask = True, cs_colorMask = \<lparr>r_c = True, g_c = True, b_c = True, a_c = True\<rparr>\<rparr>,
     boundBuffers = (\<lambda>target. 0xCDCDCDCD),
     boundBufferStack = [],
     activeTexture = 0,
     layers = (\<lambda>layer target. 0xCDCDCDCD),
     boundTextureStack = [],
     activeTextureLayer = 31,
     boundProgram = 0,
     boundProgramStack = [],
     currentContextHeight = 600,
     emulateClipControl = False,
     calls = []\<rparr>"

definition example_ext :: GLExtensions where
  "example_ext =
    \<lparr>has_glViewportArrayv = True, has_glDepthRangeArrayv = True, has_glScissorArrayv = True,
     has_glBlendFuncSeparatei = True, has_glColorMaski = True\<rparr>"

definition example_float :: GLfloatOps where
  "example_float = \<lparr>float_of_GLint = (\<lambda>i. real_of_int (sint i)), float_sub = (\<lambda>x y. x - y)\<rparr>"

definition example_cache :: GLStateManager where
  "example_cache = fst (GLStateManager_ctor 1 example_init None)"




section \<open>The validation decorator (DbgCommandBuffer.h)\<close>

text \<open>
  Modelled from the spec: the bodies of the methods of \<open>DbgCommandBuffer\<close>
  (DbgCommandBuffer.cpp), which are not among the sources. The header gives the
  operations, the members with their initial values and the names of the private
  checks; what each check reports and that each operation then forwards to the wrapped
  \<open>instance\<close> follows sections 3, 4.2 and 7 of the spec.
\<close>

subsection \<open>Resources, limits and reports\<close>

type_synonym uint = "32 word"

datatype BufferType =
  BufferType_Vertex | BufferType_Index | BufferType_Constant | BufferType_Storage
  | BufferType_StreamOutput

datatype PrimitiveTopology =
  PointList | LineList | LineStrip | TriangleList | TriangleStrip | TriangleFan

datatype ShaderStage =
  VertexStage | TessControlStage | TessEvaluationStage | GeometryStage | FragmentStage
  | ComputeStage

text \<open>
  A stage bitmask is the list of the flags that are set in it; \<open>AllStages\<close> has them
  all. A vertex format is the list of its attribute names.
\<close>

type_synonym ShaderStageFlags = "ShaderStage list"
type_synonym VertexFormat = "string list"

definition AllStages :: ShaderStageFlags where
  "AllStages =
    [VertexStage, TessControlStage, TessEvaluationStage, GeometryStage, FragmentStage,
     ComputeStage]"

record DbgBuffer =
  buffer_id :: nat
  buffer_type :: BufferType
  buffer_format :: VertexFormat

record DbgGraphicsPipeline =
  pipeline_id :: nat
  pipeline_topology :: PrimitiveTopology
  pipeline_vertexFormat :: VertexFormat
  pipeline_stages :: ShaderStageFlags

record RenderingCaps =
  hasInstancing :: bool
  hasGeometryShaders :: bool
  hasTessellationShaders :: bool
  hasComputeShaders :: bool
  maxNumComputeShaderWorkGroups_x :: uint
  maxNumComputeShaderWorkGroups_y :: uint
  maxNumComputeShaderWorkGroups_z :: uint

datatype Axis = AxisX | AxisY | AxisZ

datatype violation =
    GraphicsPipelineNotSet
  | ComputePipelineNotSet
  | StreamOutputBusy
  | VertexBufferNotSet
  | IndexBufferNotSet
  | VertexLayoutMismatch VertexFormat VertexFormat
  | ImproperVertices nat
  | NoEffectiveInstances
  | InstancingNotSupported
  | IllegalShaderStageFlags
  | WrongBufferType BufferType BufferType
  | ThreadGroupLimitExceeded Axis nat

text \<open>
  The operations of the command-buffer contract, one constructor for each method that
  the header overrides (an overload carries a suffix). Arguments that no rule of the
  spec looks at (viewports, scissors, colours, textures, samplers, render targets,
  queries) are opaque numbers.
\<close>

datatype (plugins only: code) cb_call =
    SetGraphicsAPIDependentState nat
  | SetViewport nat
  | SetViewportArray uint nat
  | SetScissor nat
  | SetScissorArray uint nat
  | SetClearColor nat
  | SetClearDepth nat
  | SetClearStencil int
  | Clear int
  | ClearTarget uint nat
  | SetVertexBuffer DbgBuffer
  | SetVertexBufferArray "DbgBuffer list"
  | SetIndexBuffer DbgBuffer
  | SetConstantBuffer DbgBuffer uint ShaderStageFlags
  | SetConstantBufferArray "DbgBuffer list" uint ShaderStageFlags
  | SetStorageBuffer DbgBuffer uint ShaderStageFlags
  | SetStorageBufferArray "DbgBuffer list" uint ShaderStageFlags
  | SetStreamOutputBuffer DbgBuffer
  | SetStreamOutputBufferArray "DbgBuffer list"
  | BeginStreamOutput nat
  | EndStreamOutput
  | SetTexture nat uint ShaderStageFlags
  | SetTextureArray nat uint ShaderStageFlags
  | SetSampler nat uint ShaderStageFlags
  | SetSamplerArray nat uint ShaderStageFlags
  | SetRenderTarget nat
  | SetRenderTarget_context nat
  | SetGraphicsPipeline DbgGraphicsPipeline
  | SetComputePipeline nat
  | BeginQuery nat
  | EndQuery nat
  | QueryResult nat
  | BeginRenderCondition nat nat
  | EndRenderCondition
  | Draw uint uint
  | DrawIndexed uint uint
  | DrawIndexed_offset uint uint int
  | DrawInstanced uint uint uint
  | DrawInstanced_offset uint uint uint uint
  | DrawIndexedInstanced uint uint uint
  | DrawIndexedInstanced_offset uint uint uint int
  | DrawIndexedInstanced_offsets uint uint uint int uint
  | Dispatch uint uint uint
  | SyncGPU

subsection \<open>The decorator's state\<close>

text \<open>
  The members of the class with the initial values the header gives them. The wrapped
  \<open>instance\<close>, the debugger and the profiler are seen by what reaches them: the calls
  forwarded, the violations reported and the draw calls recorded.
\<close>

record DbgCommandBuffer =
  topology :: PrimitiveTopology
  vertexFormat :: VertexFormat
  bindings_vertexBuffer :: "DbgBuffer option"
  bindings_indexBuffer :: "DbgBuffer option"
  bindings_streamOutput :: "DbgBuffer option"
  bindings_graphicsPipeline :: "DbgGraphicsPipeline option"
  bindings_computePipeline :: "nat option"
  states_streamOutputBusy :: bool
  instance_calls :: "cb_call list"
  debugger_reports :: "violation list"
  profiler_drawCalls :: nat

definition DbgCommandBuffer_ctor :: DbgCommandBuffer where
  "DbgCommandBuffer_ctor =
    \<lparr>topology = TriangleList, vertexFormat = [],
     bindings_vertexBuffer = None, bindings_indexBuffer = None, bindings_streamOutput = None,
     bindings_graphicsPipeline = None, bindings_computePipeline = None,
     states_streamOutputBusy = False,
     instance_calls = [], debugger_reports = [], profiler_drawCalls = 0\<rparr>"

subsection \<open>The checks\<close>

definition DebugGraphicsPipelineSet :: "DbgCommandBuffer \<Rightarrow> violation list" where
  "DebugGraphicsPipelineSet st =
    (if bindings_graphicsPipeline st = None then [GraphicsPipelineNotSet] else [])"

definition DebugComputePipelineSet :: "DbgCommandBuffer \<Rightarrow> violation list" where
  "DebugComputePipelineSet st =
    (if bindings_computePipeline st = None then [ComputePipelineNotSet] else [])"

definition DebugStreamOutputBusy :: "DbgCommandBuffer \<Rightarrow> violation list" where
  "DebugStreamOutputBusy st = (if states_streamOutputBusy st then [StreamOutputBusy] else [])"

definition DebugVertexBufferSet :: "DbgCommandBuffer \<Rightarrow> violation list" where
  "DebugVertexBufferSet st =
    (if bindings_vertexBuffer st = None then [VertexBufferNotSet] else [])"

definition DebugIndexBufferSet :: "DbgCommandBuffer \<Rightarrow> violation list" where
  "DebugIndexBufferSet st =
    (if bindings_indexBuffer st = None then [IndexBufferNotSet] else [])"

definition DebugVertexLayout :: "DbgCommandBuffer \<Rightarrow> violation list" where
  "DebugVertexLayout st =
    (case (bindings_vertexBuffer st, bindings_graphicsPipeline st) of
       (Some vb, Some p) \<Rightarrow>
         (if buffer_format vb \<noteq> pipeline_vertexFormat p
          then [VertexLayoutMismatch (buffer_format vb) (pipeline_vertexFormat p)] else [])
     | _ \<Rightarrow> [])"

text \<open>
  The vertices each primitive of a list topology takes; the other topologies have no
  fixed count.
\<close>

definition verticesPerPrimitive :: "PrimitiveTopology \<Rightarrow> nat option" where
  "verticesPerPrimitive t =
    (case t of LineList \<Rightarrow> Some 2 | TriangleList \<Rightarrow> Some 3 | _ \<Rightarrow> None)"

definition DebugNumVertices :: "DbgCommandBuffer \<Rightarrow> uint \<Rightarrow> violation list" where
  "DebugNumVertices st numVertices =
    (case verticesPerPrimitive (topology st) of
       None \<Rightarrow> []
     | Some k \<Rightarrow>
         (if unat numVertices mod k \<noteq> 0 then [ImproperVertices (unat numVertices mod k)]
          else []))"

definition DebugNumInstances :: "uint \<Rightarrow> uint \<Rightarrow> violation list" where
  "DebugNumInstances numInstances instanceOffset =
    (if unat numInstances \<le> unat instanceOffset then [NoEffectiveInstances] else [])"

definition DebugInstancing :: "RenderingCaps \<Rightarrow> violation list" where
  "DebugInstancing caps = (if hasInstancing caps then [] else [InstancingNotSupported])"

definition DebugDraw :: "DbgCommandBuffer \<Rightarrow> uint \<Rightarrow> uint \<Rightarrow> uint \<Rightarrow> uint \<Rightarrow> violation list" where
  "DebugDraw st numVertices firstVertex numInstances instanceOffset =
    DebugGraphicsPipelineSet st @ DebugStreamOutputBusy st @ DebugVertexBufferSet st
    @ DebugVertexLayout st @ DebugNumVertices st numVertices
    @ DebugNumInstances numInstances instanceOffset"

definition DebugDrawIndexed :: "DbgCommandBuffer \<Rightarrow> uint \<Rightarrow> uint \<Rightarrow> uint \<Rightarrow> int \<Rightarrow> uint \<Rightarrow> violation list" where
  "DebugDrawIndexed st numVertices numInstances firstIndex vertexOffset instanceOffset =
    DebugGraphicsPipelineSet st @ DebugStreamOutputBusy st @ DebugVertexBufferSet st
    @ DebugIndexBufferSet st @ DebugVertexLayout st @ DebugNumVertices st numVertices
    @ DebugNumInstances numInstances instanceOffset"

definition DebugThreadGroupLimit :: "Axis \<Rightarrow> uint \<Rightarrow> uint \<Rightarrow> violation list" where
  "DebugThreadGroupLimit axis groupSize limit =
    (if unat limit < unat groupSize
     then [ThreadGroupLimitExceeded axis (unat groupSize - unat limit)]
     else [])"

text \<open>
  The stages a resource may be bound to: those the active shader program uses (all of
  them while no pipeline is bound) that the capability descriptor supports.
\<close>

definition supportedStage :: "RenderingCaps \<Rightarrow> ShaderStage \<Rightarrow> bool" where
  "supportedStage caps stage =
    (case stage of
       GeometryStage \<Rightarrow> hasGeometryShaders caps
     | TessControlStage \<Rightarrow> hasTessellationShaders caps
     | TessEvaluationStage \<Rightarrow> hasTessellationShaders caps
     | ComputeStage \<Rightarrow> hasComputeShaders caps
     | _ \<Rightarrow> True)"

definition validStages :: "RenderingCaps \<Rightarrow> DbgCommandBuffer \<Rightarrow> ShaderStageFlags" where
  "validStages caps st =
    filter (supportedStage caps)
      (case bindings_graphicsPipeline st of
         None \<Rightarrow> AllStages
       | Some p \<Rightarrow> pipeline_stages p)"

definition DebugShaderStageFlags :: "ShaderStageFlags \<Rightarrow> ShaderStageFlags \<Rightarrow> violation list" where
  "DebugShaderStageFlags shaderStageFlags validFlags =
    (if list_all (\<lambda>stage. List.member validFlags stage) shaderStageFlags then []
     else [IllegalShaderStageFlags])"

definition DebugBufferType :: "BufferType \<Rightarrow> BufferType \<Rightarrow> violation list" where
  "DebugBufferType bufferType compareType =
    (if bufferType \<noteq> compareType then [WrongBufferType bufferType compareType] else [])"

subsection \<open>The operations\<close>

text \<open>What an operation reports, on the state in which it is called.\<close>

definition validate :: "RenderingCaps \<Rightarrow> DbgCommandBuffer \<Rightarrow> cb_call \<Rightarrow> violation list" where
  "validate caps st call =
    (case call of
       SetVertexBuffer buffer \<Rightarrow>
         DebugBufferType (buffer_type buffer) BufferType_Vertex
     | SetVertexBufferArray buffers \<Rightarrow>
         concat (map (\<lambda>buffer. DebugBufferType (buffer_type buffer) BufferType_Vertex) buffers)
     | SetIndexBuffer buffer \<Rightarrow>
         DebugBufferType (buffer_type buffer) BufferType_Index
     | SetConstantBuffer buffer slot flags \<Rightarrow>
         DebugBufferType (buffer_type buffer) BufferType_Constant
         @ DebugShaderStageFlags flags (validStages caps st)
     | SetConstantBufferArray buffers slot flags \<Rightarrow>
         concat (map (\<lambda>buffer. DebugBufferType (buffer_type buffer) BufferType_Constant) buffers)
         @ DebugShaderStageFlags flags (validStages caps st)
     | SetStorageBuffer buffer slot flags \<Rightarrow>
         DebugBufferType (buffer_type buffer) BufferType_Storage
         @ DebugShaderStageFlags flags (validStages caps st)
     | SetStorageBufferArray buffers slot flags \<Rightarrow>
         concat (map (\<lambda>buffer. DebugBufferType (buffer_type buffer) BufferType_Storage) buffers)
         @ DebugShaderStageFlags flags (validStages caps st)
     | SetStreamOutputBuffer buffer \<Rightarrow>
         DebugBufferType (buffer_type buffer) BufferType_StreamOutput
     | SetStreamOutputBufferArray buffers \<Rightarrow>
         concat (map (\<lambda>buffer. DebugBufferType (buffer_type buffer) BufferType_StreamOutput) buffers)
     | SetTexture texture slot flags \<Rightarrow>
         DebugShaderStageFlags flags (validStages caps st)
     | SetTextureArray textures slot flags \<Rightarrow>
         DebugShaderStageFlags flags (validStages caps st)
     | SetSampler sampler slot flags \<Rightarrow>
         DebugShaderStageFlags flags (validStages caps st)
     | SetSamplerArray samplers slot flags \<Rightarrow>
         DebugShaderStageFlags flags (validStages caps st)
     | Draw numVertices firstVertex \<Rightarrow>
         DebugDraw st numVertices firstVertex 1 0
     | DrawIndexed numVertices firstIndex \<Rightarrow>
         DebugDrawIndexed st numVertices 1 firstIndex 0 0
     | DrawIndexed_offset numVertices firstIndex vertexOffset \<Rightarrow>
         DebugDrawIndexed st numVertices 1 firstIndex vertexOffset 0
     | DrawInstanced numVertices firstVertex numInstances \<Rightarrow>
         DebugInstancing caps @ DebugDraw st numVertices firstVertex numInstances 0
     | DrawInstanced_offset numVertices firstVertex numInstances instanceOffset \<Rightarrow>
         DebugInstancing caps @ DebugDraw st numVertices firstVertex numInstances instanceOffset
     | DrawIndexedInstanced numVertices numInstances firstIndex \<Rightarrow>
         DebugInstancing caps @ DebugDrawIndexed st numVertices numInstances firstIndex 0 0
     | DrawIndexedInstanced_offset numVertices numInstances firstIndex vertexOffset \<Rightarrow>
         DebugInstancing caps
         @ DebugDrawIndexed st numVertices numInstances firstIndex vertexOffset 0
     | DrawIndexedInstanced_offsets numVertices numInstances firstIndex vertexOffset
         instanceOffset \<Rightarrow>
         DebugInstancing caps
         @ DebugDrawIndexed st numVertices numInstances firstIndex vertexOffset instanceOffset
     | Dispatch groupSizeX groupSizeY groupSizeZ \<Rightarrow>
         DebugComputePipelineSet st
         @ DebugThreadGroupLimit AxisX groupSizeX (maxNumComputeShaderWorkGroups_x caps)
         @ DebugThreadGroupLimit AxisY groupSizeY (maxNumComputeShaderWorkGroups_y caps)
         @ DebugThreadGroupLimit AxisZ groupSizeZ (maxNumComputeShaderWorkGroups_z caps)
     | _ \<Rightarrow> [])"

text \<open>
  The bookkeeping an operation does on the pipeline snapshot. Binding a graphics
  pipeline resets the snapshot to its defaults and captures the vertex format and the
  topology of the new pipeline; the compute pipeline is tracked independently.
\<close>

definition track :: "cb_call \<Rightarrow> DbgCommandBuffer \<Rightarrow> DbgCommandBuffer" where
  "track call st =
    (case call of
       SetVertexBuffer buffer \<Rightarrow>
         st\<lparr>bindings_vertexBuffer := Some buffer\<rparr>
     | SetVertexBufferArray buffers \<Rightarrow>
         st\<lparr>bindings_vertexBuffer := (case buffers of [] \<Rightarrow> None | buffer # rest \<Rightarrow> Some buffer)\<rparr>
     | SetIndexBuffer buffer \<Rightarrow>
         st\<lparr>bindings_indexBuffer := Some buffer\<rparr>
     | SetStreamOutputBuffer buffer \<Rightarrow>
         st\<lparr>bindings_streamOutput := Some buffer\<rparr>
     | SetStreamOutputBufferArray buffers \<Rightarrow>
         st\<lparr>bindings_streamOutput := (case buffers of [] \<Rightarrow> None | buffer # rest \<Rightarrow> Some buffer)\<rparr>
     | BeginStreamOutput primitiveType \<Rightarrow>
         st\<lparr>states_streamOutputBusy := True\<rparr>
     | EndStreamOutput \<Rightarrow>
         st\<lparr>states_streamOutputBusy := False\<rparr>
     | SetGraphicsPipeline p \<Rightarrow>
         st\<lparr>topology := pipeline_topology p, vertexFormat := pipeline_vertexFormat p,
            bindings_vertexBuffer := None, bindings_indexBuffer := None,
            bindings_streamOutput := None, bindings_graphicsPipeline := Some p,
            states_streamOutputBusy := False\<rparr>
     | SetComputePipeline p \<Rightarrow>
         st\<lparr>bindings_computePipeline := Some p\<rparr>
     | _ \<Rightarrow> st)"

definition isDrawCall :: "cb_call \<Rightarrow> bool" where
  "isDrawCall call =
    (case call of
       Draw n f \<Rightarrow> True
     | DrawIndexed n f \<Rightarrow> True
     | DrawIndexed_offset n f v \<Rightarrow> True
     | DrawInstanced n f i \<Rightarrow> True
     | DrawInstanced_offset n f i off \<Rightarrow> True
     | DrawIndexedInstanced n i f \<Rightarrow> True
     | DrawIndexedInstanced_offset n i f v \<Rightarrow> True
     | DrawIndexedInstanced_offsets n i f v off \<Rightarrow> True
     | _ \<Rightarrow> False)"

text \<open>
  One operation of the decorator: it reports what its checks find, does its
  bookkeeping, forwards the call to \<open>instance\<close> and, for a draw call, records it with
  the profiler.
\<close>

definition DbgCommandBuffer_call :: "RenderingCaps \<Rightarrow> cb_call \<Rightarrow> DbgCommandBuffer \<Rightarrow> DbgCommandBuffer" where
  "DbgCommandBuffer_call caps call st =
    (let st1 = st\<lparr>debugger_reports := debugger_reports st @ validate caps st call\<rparr>;
         st2 = track call st1;
         st3 = st2\<lparr>instance_calls := instance_calls st2 @ [call]\<rparr>
     in if isDrawCall call then st3\<lparr>profiler_drawCalls := Suc (profiler_drawCalls st3)\<rparr>
        else st3)"

fun DbgCommandBuffer_calls :: "RenderingCaps \<Rightarrow> cb_call list \<Rightarrow> DbgCommandBuffer \<Rightarrow> DbgCommandBuffer" where
  "DbgCommandBuffer_calls caps [] st = st"
| "DbgCommandBuffer_calls caps (call # rest) st =
    DbgCommandBuffer_calls caps rest (DbgCommandBuffer_call caps call st)"

definition example_caps :: RenderingCaps where
  "example_caps =
    \<lparr>hasInstancing = True, hasGeometryShaders = True, hasTessellationShaders = True,
     hasComputeShaders = True, maxNumComputeShaderWorkGroups_x = 65535,
     maxNumComputeShaderWorkGroups_y = 65535, maxNumComputeShaderWorkGroups_z = 65535\<rparr>"

definition example_vertexBuffer :: DbgBuffer where
  "example_vertexBuffer =
    \<lparr>buffer_id = 1, buffer_type = BufferType_Vertex, buffer_format = [''position'', ''color'']\<rparr>"

definition example_pipeline :: DbgGraphicsPipeline where
  "example_pipeline =
    \<lparr>pipeline_id = 1, pipeline_topology = TriangleList,
     pipeline_vertexFormat = [''position'', ''color''],
     pipeline_stages = [VertexStage, FragmentStage]\<rparr>"

section \<open>Properties of the state manager\<close>

subsection \<open>Capability toggles\<close>

lemma Set_effect:
  "values_s (Set C v s) C = v"
  "calls (Set C v s) =
     calls s @ (if values_s s C = v then []
                else [if v then GlEnable (stateCapsMap C) else GlDisable (stateCapsMap C)])"
  by (simp_all add: Set_def issue_def Let_def)

text \<open>
  Claim C2. \<open>Set\<close> is idempotent. Two calls of \<open>Set C b\<close> in a row issue the native
  transition once when the mirror differs from \<open>b\<close> (\<open>glEnable\<close> for \<open>b\<close> true,
  \<open>glDisable\<close> otherwise) and not at all when the mirror already equals \<open>b\<close>; the
  second call never issues anything; afterwards the mirror is \<open>b\<close>. \<open>Enable C\<close> is
  \<open>Set C True\<close> and \<open>Disable C\<close> is \<open>Set C False\<close>.
\<close>

theorem Set_idempotent:
  "calls (Set C b (Set C b s)) =
     calls s @ (if values_s s C = b then []
                else [if b then GlEnable (stateCapsMap C) else GlDisable (stateCapsMap C)])
   \<and> calls (Set C b (Set C b s)) = calls (Set C b s)
   \<and> values_s (Set C b s) C = b
   \<and> Enable C s = Set C True s
   \<and> Disable C s = Set C False s"
  by (simp add: Set_def Enable_def Disable_def issue_def)

text \<open>
  An instance of C2: enabling blending twice on the example cache issues
  \<open>glEnable(GL_BLEND)\<close> once.
\<close>

theorem Set_idempotent_witness:
  "calls (Set BLEND True (Set BLEND True example_cache)) =
     calls example_cache @ [GlEnable ''GL_BLEND'']
   \<and> values_s (Set BLEND True example_cache) BLEND
   \<and> Enable BLEND example_cache = Set BLEND True example_cache"
  using Set_idempotent[of BLEND True example_cache]
  by (simp add: example_cache_def GLStateManager_ctor_def)

subsection \<open>The check against the mirror\<close>




subsection \<open>Unconditional binds\<close>

lemma BindBuffer_effect:
  "boundBuffers (BindBuffer T h s) T = h"
  "calls (BindBuffer T h s) =
     calls s @ (if boundBuffers s T = h then [] else [GlBindBuffer (bufferTargetsMap T) h])"
  by (simp_all add: BindBuffer_def issue_def)

text \<open>
  Claim C5 does not hold as it is stated. \<open>BindBufferBase\<close> zeroes no slot: with handle 5
  mirrored for the array buffer and handle 6 for the element-array buffer, a
  \<open>BindBufferBase\<close> on the uniform-buffer target leaves both mirrored slots as they
  were.
\<close>

theorem BindBufferBase_keeps_slots_counterexample:
  "boundBuffers (BindBufferBase UNIFORM_BUFFER 2 0
      (BindBuffer ELEMENT_ARRAY_BUFFER 6 (BindBuffer ARRAY_BUFFER 5 example_cache)))
     ARRAY_BUFFER = 5
   \<and> boundBuffers (BindBufferBase UNIFORM_BUFFER 2 0
      (BindBuffer ELEMENT_ARRAY_BUFFER 6 (BindBuffer ARRAY_BUFFER 5 example_cache)))
     ELEMENT_ARRAY_BUFFER = 6"
  by (simp add: BindBufferBase_def BindBuffer_def issue_def example_cache_def
        GLStateManager_ctor_def)

text \<open>
  Claim C5, amended. \<open>BindBufferBase\<close> and \<open>BindVertexArray\<close> issue their native call
  on every state, whatever the mirror holds. \<open>BindBufferBase\<close> stores the handle in the
  slot of its own target and leaves every other slot as it is; it is \<open>BindVertexArray\<close>,
  which unbinds the plain array and element-array bindings in the driver, that sets
  those two mirrored slots to zero, and it touches no other slot.
\<close>

theorem BindBufferBase_BindVertexArray_unconditional:
  "calls (BindBufferBase target index buffer s) =
     calls s @ [GlBindBufferBase (bufferTargetsMap target) index buffer]
   \<and> boundBuffers (BindBufferBase target index buffer s) = (boundBuffers s)(target := buffer)
   \<and> calls (BindVertexArray array s) = calls s @ [GlBindVertexArray array]
   \<and> boundBuffers (BindVertexArray array s) =
       (boundBuffers s)(ARRAY_BUFFER := 0, ELEMENT_ARRAY_BUFFER := 0)"
  by (simp add: BindBufferBase_def BindVertexArray_def issue_def Let_def)

text \<open>
  An instance of the amended C5: on the example cache, where the uniform-buffer slot
  already holds 0, \<open>BindBufferBase\<close> with handle 0 still calls the driver, and
  \<open>BindVertexArray\<close> after a bind of the array buffer leaves that slot at zero.
\<close>

theorem BindBufferBase_BindVertexArray_unconditional_witness:
  "boundBuffers example_cache UNIFORM_BUFFER = 0
   \<and> calls (BindBufferBase UNIFORM_BUFFER 2 0 example_cache) =
       calls example_cache @ [GlBindBufferBase ''GL_UNIFORM_BUFFER'' 2 0]
   \<and> calls (BindVertexArray 3 (BindBuffer ARRAY_BUFFER 5 example_cache)) =
       calls example_cache @ [GlBindBuffer ''GL_ARRAY_BUFFER'' 5, GlBindVertexArray 3]
   \<and> boundBuffers (BindVertexArray 3 (BindBuffer ARRAY_BUFFER 5 example_cache)) ARRAY_BUFFER = 0"
  using BindBufferBase_BindVertexArray_unconditional[of UNIFORM_BUFFER 2 0 example_cache 3]
    BindBufferBase_BindVertexArray_unconditional[of UNIFORM_BUFFER 2 0
      "BindBuffer ARRAY_BUFFER 5 example_cache" 3]
  by (simp add: example_cache_def GLStateManager_ctor_def BindBuffer_def issue_def)

subsection \<open>Repeated binds\<close>

lemma BindBuffer_idem: "BindBuffer t h (BindBuffer t h s) = BindBuffer t h s"
  by (simp add: BindBuffer_def issue_def)

lemma BindBuffer_funpow: "0 < N \<Longrightarrow> (BindBuffer t h ^^ N) s = BindBuffer t h s"
proof (induction N)
  case 0
  then show ?case by simp
next
  case (Suc N)
  then show ?case by (cases N) (simp_all add: BindBuffer_idem)
qed

lemma BindBuffer_fold:
  "distinct (h # hs) \<Longrightarrow> boundBuffers s t \<noteq> h \<Longrightarrow>
   calls (fold (BindBuffer t) (h # hs) s) = calls s @ map (GlBindBuffer (bufferTargetsMap t)) (h # hs)"
proof (induction hs arbitrary: h s)
  case Nil
  then show ?case by (simp add: BindBuffer_def issue_def)
next
  case (Cons h' hs)
  have "distinct (h' # hs)" using Cons.prems(1) by simp
  moreover
  have "boundBuffers (BindBuffer t h s) t \<noteq> h'"
    using Cons.prems(1) by (simp add: BindBuffer_def issue_def)
  ultimately have "calls (fold (BindBuffer t) (h' # hs) (BindBuffer t h s)) =
      calls (BindBuffer t h s) @ map (GlBindBuffer (bufferTargetsMap t)) (h' # hs)"
    by (rule Cons.IH)
  moreover have "calls (BindBuffer t h s) = calls s @ [GlBindBuffer (bufferTargetsMap t) h]"
    using Cons.prems(2) by (simp add: BindBuffer_def issue_def)
  ultimately show ?case by simp
qed

lemma BindTexture_idem: "BindTexture t h (BindTexture t h s) = BindTexture t h s"
  by (simp add: BindTexture_def issue_def Let_def)

lemma BindTexture_funpow: "0 < N \<Longrightarrow> (BindTexture t h ^^ N) s = BindTexture t h s"
proof (induction N)
  case 0
  then show ?case by simp
next
  case (Suc N)
  then show ?case by (cases N) (simp_all add: BindTexture_idem)
qed

lemma BindTexture_fold:
  "distinct (h # hs) \<Longrightarrow> layers s (activeTextureLayer s) t \<noteq> h \<Longrightarrow>
   calls (fold (BindTexture t) (h # hs) s) = calls s @ map (GlBindTexture (textureTargetsMap t)) (h # hs)"
proof (induction hs arbitrary: h s)
  case Nil
  then show ?case by (simp add: BindTexture_def issue_def Let_def)
next
  case (Cons h' hs)
  let ?s = "BindTexture t h s"
  have "distinct (h' # hs)" using Cons.prems(1) by simp
  moreover
  have "layers ?s (activeTextureLayer ?s) t \<noteq> h'"
    using Cons.prems(1) by (simp add: BindTexture_def issue_def Let_def)
  ultimately have "calls (fold (BindTexture t) (h' # hs) ?s) =
      calls ?s @ map (GlBindTexture (textureTargetsMap t)) (h' # hs)"
    by (rule Cons.IH)
  moreover have "calls (BindTexture t h s) = calls s @ [GlBindTexture (textureTargetsMap t) h]"
    using Cons.prems(2) by (simp add: BindTexture_def issue_def Let_def)
  ultimately show ?case by simp
qed

lemma BindShaderProgram_idem:
  "BindShaderProgram p (BindShaderProgram p s) = BindShaderProgram p s"
  by (simp add: BindShaderProgram_def issue_def)

lemma BindShaderProgram_funpow:
  "0 < N \<Longrightarrow> (BindShaderProgram p ^^ N) s = BindShaderProgram p s"
proof (induction N)
  case 0
  then show ?case by simp
next
  case (Suc N)
  then show ?case by (cases N) (simp_all add: BindShaderProgram_idem)
qed

lemma BindShaderProgram_fold:
  "distinct (p # ps) \<Longrightarrow> boundProgram s \<noteq> p \<Longrightarrow>
   calls (fold BindShaderProgram (p # ps) s) = calls s @ map GlUseProgram (p # ps)"
proof (induction ps arbitrary: p s)
  case Nil
  then show ?case by (simp add: BindShaderProgram_def issue_def)
next
  case (Cons p' ps)
  have "distinct (p' # ps)" using Cons.prems(1) by simp
  moreover
  have "boundProgram (BindShaderProgram p s) \<noteq> p'"
    using Cons.prems(1) by (simp add: BindShaderProgram_def issue_def)
  ultimately have "calls (fold BindShaderProgram (p' # ps) (BindShaderProgram p s)) =
      calls (BindShaderProgram p s) @ map GlUseProgram (p' # ps)"
    by (rule Cons.IH)
  moreover have "calls (BindShaderProgram p s) = calls s @ [GlUseProgram p]"
    using Cons.prems(2) by (simp add: BindShaderProgram_def issue_def)
  ultimately show ?case by simp
qed

text \<open>
  Claim C4 does not hold as it is stated. On a freshly constructed cache the array-buffer
  slot mirrors handle 0, so binding \<open>(ARRAY_BUFFER, 0)\<close> three times issues no native
  call at all, and binding the two different handles 0 and 5 issues one call, not two.
\<close>

theorem repeated_bind_counterexample:
  "calls ((BindBuffer ARRAY_BUFFER 0 ^^ 3) example_cache) = calls example_cache
   \<and> calls (fold (BindBuffer ARRAY_BUFFER) [0, 5] example_cache) =
       calls example_cache @ [GlBindBuffer ''GL_ARRAY_BUFFER'' 5]"
  by (simp add: BindBuffer_funpow BindBuffer_def issue_def example_cache_def
        GLStateManager_ctor_def)

text \<open>
  Claim C4, amended. Binding the same (target, handle) pair \<open>N > 0\<close> times in a row
  issues the native bind call exactly once if the handle differs from the one mirrored
  before the first call, and never if it equals it. Binding pairwise different handles
  one after the other issues one call for each of them, provided the first differs from
  the handle mirrored before. This holds for \<open>BindBuffer\<close>, for \<open>BindTexture\<close> (on the
  slot of the active layer) and for \<open>BindShaderProgram\<close>.
\<close>

theorem repeated_bind:
  "(0 < N \<and> boundBuffers s bt \<noteq> h \<longrightarrow>
      calls ((BindBuffer bt h ^^ N) s) = calls s @ [GlBindBuffer (bufferTargetsMap bt) h])
   \<and> (boundBuffers s bt = h \<longrightarrow> calls ((BindBuffer bt h ^^ N) s) = calls s)
   \<and> (distinct (h # hs) \<and> boundBuffers s bt \<noteq> h \<longrightarrow>
      calls (fold (BindBuffer bt) (h # hs) s) =
        calls s @ map (GlBindBuffer (bufferTargetsMap bt)) (h # hs))
   \<and> (0 < N \<and> layers s (activeTextureLayer s) tt \<noteq> h \<longrightarrow>
      calls ((BindTexture tt h ^^ N) s) = calls s @ [GlBindTexture (textureTargetsMap tt) h])
   \<and> (layers s (activeTextureLayer s) tt = h \<longrightarrow> calls ((BindTexture tt h ^^ N) s) = calls s)
   \<and> (distinct (h # hs) \<and> layers s (activeTextureLayer s) tt \<noteq> h \<longrightarrow>
      calls (fold (BindTexture tt) (h # hs) s) =
        calls s @ map (GlBindTexture (textureTargetsMap tt)) (h # hs))
   \<and> (0 < N \<and> boundProgram s \<noteq> h \<longrightarrow>
      calls ((BindShaderProgram h ^^ N) s) = calls s @ [GlUseProgram h])
   \<and> (boundProgram s = h \<longrightarrow> calls ((BindShaderProgram h ^^ N) s) = calls s)
   \<and> (distinct (h # hs) \<and> boundProgram s \<noteq> h \<longrightarrow>
      calls (fold BindShaderProgram (h # hs) s) = calls s @ map GlUseProgram (h # hs))"
proof -
  have b0: "calls ((BindBuffer bt h ^^ N) s) = calls s" if "boundBuffers s bt = h"
  proof (cases N)
    case 0 then show ?thesis by simp
  next
    case (Suc n) with that show ?thesis by (simp only: BindBuffer_funpow zero_less_Suc) (simp add: BindBuffer_def)
  qed
  have t0: "calls ((BindTexture tt h ^^ N) s) = calls s" if "layers s (activeTextureLayer s) tt = h"
  proof (cases N)
    case 0 then show ?thesis by simp
  next
    case (Suc n) with that show ?thesis by (simp only: BindTexture_funpow zero_less_Suc) (simp add: BindTexture_def)
  qed
  have p0: "calls ((BindShaderProgram h ^^ N) s) = calls s" if "boundProgram s = h"
  proof (cases N)
    case 0 then show ?thesis by simp
  next
    case (Suc n) with that show ?thesis by (simp only: BindShaderProgram_funpow zero_less_Suc) (simp add: BindShaderProgram_def)
  qed
  have b1: "calls ((BindBuffer bt h ^^ N) s) = calls s @ [GlBindBuffer (bufferTargetsMap bt) h]"
    if "0 < N \<and> boundBuffers s bt \<noteq> h"
    using that by (simp add: BindBuffer_funpow) (simp add: BindBuffer_def issue_def)
  have t1: "calls ((BindTexture tt h ^^ N) s) = calls s @ [GlBindTexture (textureTargetsMap tt) h]"
    if "0 < N \<and> layers s (activeTextureLayer s) tt \<noteq> h"
    using that by (simp add: BindTexture_funpow) (simp add: BindTexture_def issue_def Let_def)
  have p1: "calls ((BindShaderProgram h ^^ N) s) = calls s @ [GlUseProgram h]"
    if "0 < N \<and> boundProgram s \<noteq> h"
    using that by (simp add: BindShaderProgram_funpow) (simp add: BindShaderProgram_def issue_def)
  have b2: "calls (fold (BindBuffer bt) (h # hs) s) =
        calls s @ map (GlBindBuffer (bufferTargetsMap bt)) (h # hs)"
    if "distinct (h # hs) \<and> boundBuffers s bt \<noteq> h"
    using that BindBuffer_fold by blast
  have t2: "calls (fold (BindTexture tt) (h # hs) s) =
        calls s @ map (GlBindTexture (textureTargetsMap tt)) (h # hs)"
    if "distinct (h # hs) \<and> layers s (activeTextureLayer s) tt \<noteq> h"
    using that BindTexture_fold by blast
  have p2: "calls (fold BindShaderProgram (h # hs) s) = calls s @ map GlUseProgram (h # hs)"
    if "distinct (h # hs) \<and> boundProgram s \<noteq> h"
    using that BindShaderProgram_fold by blast
  from b0 b1 b2 t0 t1 t2 p0 p1 p2 show ?thesis by blast
qed

text \<open>
  Instances of the amended C4 on the example cache: handle 5 bound three times, and the
  handles 5, 6, 7 bound in turn, for each of the three kinds of binding.
\<close>

theorem repeated_bind_witness:
  "(0::nat) < 3 \<and> boundBuffers example_cache ARRAY_BUFFER \<noteq> 5
   \<and> calls ((BindBuffer ARRAY_BUFFER 5 ^^ 3) example_cache) =
       calls example_cache @ [GlBindBuffer ''GL_ARRAY_BUFFER'' 5]
   \<and> distinct [5, 6, 7 :: GLuint]
   \<and> calls (fold (BindBuffer ARRAY_BUFFER) [5, 6, 7] example_cache) =
       calls example_cache @ [GlBindBuffer ''GL_ARRAY_BUFFER'' 5,
         GlBindBuffer ''GL_ARRAY_BUFFER'' 6, GlBindBuffer ''GL_ARRAY_BUFFER'' 7]
   \<and> layers example_cache (activeTextureLayer example_cache) TEXTURE_2D \<noteq> 5
   \<and> calls ((BindTexture TEXTURE_2D 5 ^^ 3) example_cache) =
       calls example_cache @ [GlBindTexture ''GL_TEXTURE_2D'' 5]
   \<and> calls (fold (BindTexture TEXTURE_2D) [5, 6, 7] example_cache) =
       calls example_cache @ [GlBindTexture ''GL_TEXTURE_2D'' 5,
         GlBindTexture ''GL_TEXTURE_2D'' 6, GlBindTexture ''GL_TEXTURE_2D'' 7]
   \<and> boundProgram example_cache \<noteq> 5
   \<and> calls ((BindShaderProgram 5 ^^ 3) example_cache) = calls example_cache @ [GlUseProgram 5]
   \<and> calls (fold BindShaderProgram [5, 6, 7] example_cache) =
       calls example_cache @ [GlUseProgram 5, GlUseProgram 6, GlUseProgram 7]
   \<and> boundBuffers example_cache ARRAY_BUFFER = 0
   \<and> calls ((BindBuffer ARRAY_BUFFER 0 ^^ 3) example_cache) = calls example_cache
   \<and> layers example_cache (activeTextureLayer example_cache) TEXTURE_2D = 0
   \<and> calls ((BindTexture TEXTURE_2D 0 ^^ 3) example_cache) = calls example_cache
   \<and> boundProgram example_cache = 0
   \<and> calls ((BindShaderProgram 0 ^^ 3) example_cache) = calls example_cache"
proof -
  have a: "boundBuffers example_cache ARRAY_BUFFER = 0"
    "layers example_cache (activeTextureLayer example_cache) TEXTURE_2D = 0"
    "boundProgram example_cache = 0"
    by (simp_all add: example_cache_def example_init_def GLStateManager_ctor_def)
  have d: "distinct [5, 6, 7 :: GLuint]" by simp
  show ?thesis
    using repeated_bind[of 3 example_cache ARRAY_BUFFER 5 "[6, 7]" TEXTURE_2D]
      repeated_bind[of 3 example_cache ARRAY_BUFFER 0 "[]" TEXTURE_2D] a d
    by (simp del: fold_simps funpow.simps distinct.simps)
qed

subsection \<open>Save and restore\<close>

text \<open>
  No operation touches the stack of saved capabilities but \<open>PushState\<close>, \<open>PopState\<close>
  and \<open>PopStates\<close>, and none the stack of saved buffer bindings but \<open>PushBoundBuffer\<close>
  and \<open>PopBoundBuffer\<close>. So a sequence that is balanced on a stack leaves below its own
  entries what was there when it started.
\<close>

lemma SetBlendStates_loop_stacks [simp]:
  "valueStack (SetBlendStates_loop ext db bs en s) = valueStack s"
  "boundBufferStack (SetBlendStates_loop ext db bs en s) = boundBufferStack s"
  by (induction bs arbitrary: db s) (simp_all add: SetBlendState_def issue_def Let_def)

lemma Reset_loop_stacks [simp]:
  "valueStack (Reset_loop drv sts s) = valueStack s"
  "boundBufferStack (Reset_loop drv sts s) = boundBufferStack s"
  by (induction sts arbitrary: s) (simp_all add: issue_def)

lemma SetStencilState_stacks [simp]:
  "valueStack (SetStencilState face st s) = valueStack s"
  "boundBufferStack (SetStencilState face st s) = boundBufferStack s"
  by (simp_all add: SetStencilState_def SetStencilState_front_def SetStencilState_back_def
        split: prod.splits)

lemma Set_stacks [simp]:
  "valueStack (Set C b s) = valueStack s"
  "boundBufferStack (Set C b s) = boundBufferStack s"
  by (simp_all add: Set_def issue_def Let_def)

lemma BindBuffer_stacks [simp]:
  "valueStack (BindBuffer t h s) = valueStack s"
  "boundBufferStack (BindBuffer t h s) = boundBufferStack s"
  by (simp_all add: BindBuffer_def issue_def)

lemma BindTexture_stacks [simp]:
  "valueStack (BindTexture t h s) = valueStack s"
  "boundBufferStack (BindTexture t h s) = boundBufferStack s"
  by (simp_all add: BindTexture_def issue_def Let_def)

lemma ActiveTexture_stacks:
  "ActiveTexture l s = Some s1 \<Longrightarrow> valueStack s1 = valueStack s"
  "ActiveTexture l s = Some s1 \<Longrightarrow> boundBufferStack s1 = boundBufferStack s"
  by (auto simp: ActiveTexture_def issue_def split: if_splits)

lemma SetViewports_Some:
  "SetViewports fl ext vps s = Some s1 \<Longrightarrow> (\<exists>c. s1 = issue c s) \<or> s1 = s"
  by (auto simp: SetViewports_def Let_def split: if_splits option.splits)

lemma SetScissors_Some:
  "SetScissors ext scs s = Some s1 \<Longrightarrow> (\<exists>c. s1 = issue c s) \<or> s1 = s"
  by (auto simp: SetScissors_def Let_def split: if_splits option.splits)

lemma PopState_Some:
  "PopState s = Some s1 \<Longrightarrow>
     valueStack s \<noteq> [] \<and> valueStack s1 = tl (valueStack s)
     \<and> boundBufferStack s1 = boundBufferStack s"
  by (auto simp: PopState_def split: list.splits)

lemma PopStates_Some:
  "PopStates n s = Some s1 \<Longrightarrow>
     n \<le> length (valueStack s) \<and> valueStack s1 = drop n (valueStack s)
     \<and> boundBufferStack s1 = boundBufferStack s"
proof (induction n arbitrary: s)
  case 0
  then show ?case by simp
next
  case (Suc n)
  from Suc.prems obtain s2 where p: "PopState s = Some s2" and r: "PopStates n s2 = Some s1"
    by (auto split: option.splits)
  from PopState_Some[OF p] Suc.IH[OF r] show ?case
    by (cases "valueStack s") (auto simp: drop_Suc)
qed

lemma PopBoundBuffer_Some:
  "PopBoundBuffer s = Some s1 \<Longrightarrow>
     boundBufferStack s \<noteq> [] \<and> boundBufferStack s1 = tl (boundBufferStack s)
     \<and> valueStack s1 = valueStack s"
  by (auto simp: PopBoundBuffer_def split: list.splits)

lemma PopBoundTexture_stacks:
  "PopBoundTexture s = Some s1 \<Longrightarrow>
     valueStack s1 = valueStack s \<and> boundBufferStack s1 = boundBufferStack s"
  by (auto simp: PopBoundTexture_def ActiveTexture_stacks split: list.splits option.splits)

lemma exec_valueStack_frame:
  assumes "exec fl ext drv c s = Inr s1"
    and "\<forall>state. c \<noteq> CPushState state" "c \<noteq> CPopState" "\<forall>n. c \<noteq> CPopStates n"
  shows "valueStack s1 = valueStack s"
  using assms
  by (cases c)
     (auto simp: defined_def thrown_def Reset_def Enable_def Disable_def issue_def
        MakeCurrentInfo_def SetDepthRanges_def
        SetBlendStates_def SetClipControl_def SetDepthFunc_def SetPolygonMode_def
        SetCullFace_def SetFrontFace_def SetDepthMask_def BindBufferBase_def
        BindVertexArray_def ForcedBindBuffer_def PushBoundBuffer_def ForcedBindTexture_def
        PushBoundTexture_def BindTexture_tex_def ForcedBindTexture_tex_def
        BindShaderProgram_def PushShaderProgram_def PopShaderProgram_def Let_def
        ActiveTexture_stacks
        dest: PopBoundBuffer_Some PopBoundTexture_stacks dest!: SetViewports_Some SetScissors_Some
        split: option.splits sum.splits if_splits list.splits)

lemma exec_valueStack_step:
  assumes e: "exec fl ext drv c s = Inr s1"
    and d: "valueStack_step c (length pre) = Some k"
    and v: "valueStack s = pre @ base"
  shows "\<exists>new. valueStack s1 = new @ base \<and> length new = k"
proof -
  consider (push) state where "c = CPushState state" | (pop) "c = CPopState"
    | (pops) n where "c = CPopStates n"
    | (other) "\<forall>state. c \<noteq> CPushState state" "c \<noteq> CPopState" "\<forall>n. c \<noteq> CPopStates n"
    by blast
  then show ?thesis
  proof cases
    case push
    with e d v show ?thesis by (auto simp: PushState_def)
  next
    case pop
    with d have "pre \<noteq> []" and k: "k = length pre - 1" by (auto split: if_splits)
    moreover from pop e have "PopState s = Some s1"
      by (auto simp: defined_def split: option.splits)
    from PopState_Some[OF this] have "valueStack s1 = tl (valueStack s)" by simp
    ultimately show ?thesis using v by (cases pre) auto
  next
    case pops
    with d have "n \<le> length pre" and k: "k = length pre - n" by (auto split: if_splits)
    moreover from pops e have "PopStates n s = Some s1"
      by (auto simp: defined_def split: option.splits)
    from PopStates_Some[OF this] have "valueStack s1 = drop n (valueStack s)" by simp
    ultimately show ?thesis using v by auto
  next
    case other
    from exec_valueStack_frame[OF e other] v have "valueStack s1 = pre @ base" by simp
    moreover from other d have "k = length pre" by (cases c) auto
    ultimately show ?thesis by blast
  qed
qed

lemma exec_all_valueStack_depth:
  "exec_all fl ext drv cs s = Inr s1 \<Longrightarrow> valueStack_depth cs (length pre) = Some k
   \<Longrightarrow> valueStack s = pre @ base
   \<Longrightarrow> \<exists>new. valueStack s1 = new @ base \<and> length new = k"
proof (induction cs arbitrary: s pre)
  case Nil
  then show ?case by simp
next
  case (Cons c cs)
  from Cons.prems(1) obtain s2 where e: "exec fl ext drv c s = Inr s2"
    and r: "exec_all fl ext drv cs s2 = Inr s1"
    by (auto split: sum.splits)
  from Cons.prems(2) obtain d1 where st: "valueStack_step c (length pre) = Some d1"
    and dr: "valueStack_depth cs d1 = Some k"
    by (auto split: option.splits)
  from exec_valueStack_step[OF e st Cons.prems(3)]
  obtain new where n: "valueStack s2 = new @ base" "length new = d1" by blast
  from Cons.IH[OF r _ n(1)] dr n(2) show ?case by simp
qed

lemma balanced_valueStack:
  assumes "valueStack_depth cs 0 = Some 0" and "exec_all fl ext drv cs s = Inr s1"
  shows "valueStack s1 = valueStack s"
  using exec_all_valueStack_depth[OF assms(2), of "[]" 0 "valueStack s"] assms(1) by simp

lemma exec_boundBufferStack_frame:
  assumes "exec fl ext drv c s = Inr s1"
    and "\<forall>target. c \<noteq> CPushBoundBuffer target" "c \<noteq> CPopBoundBuffer"
  shows "boundBufferStack s1 = boundBufferStack s"
  using assms
  by (cases c)
     (auto simp: defined_def thrown_def Reset_def Enable_def Disable_def issue_def
        MakeCurrentInfo_def SetDepthRanges_def
        SetBlendStates_def SetClipControl_def SetDepthFunc_def SetPolygonMode_def
        SetCullFace_def SetFrontFace_def SetDepthMask_def BindBufferBase_def
        BindVertexArray_def ForcedBindBuffer_def PushState_def ForcedBindTexture_def
        PushBoundTexture_def BindTexture_tex_def ForcedBindTexture_tex_def
        BindShaderProgram_def PushShaderProgram_def PopShaderProgram_def Let_def
        ActiveTexture_stacks
        dest: PopState_Some PopStates_Some PopBoundTexture_stacks dest!: SetViewports_Some SetScissors_Some
        split: option.splits sum.splits if_splits list.splits)

lemma exec_boundBufferStack_step:
  assumes e: "exec fl ext drv c s = Inr s1"
    and d: "boundBufferStack_step c (length pre) = Some k"
    and v: "boundBufferStack s = pre @ base"
  shows "\<exists>new. boundBufferStack s1 = new @ base \<and> length new = k"
proof -
  consider (push) target where "c = CPushBoundBuffer target" | (pop) "c = CPopBoundBuffer"
    | (other) "\<forall>target. c \<noteq> CPushBoundBuffer target" "c \<noteq> CPopBoundBuffer"
    by blast
  then show ?thesis
  proof cases
    case push
    with e d v show ?thesis by (auto simp: PushBoundBuffer_def)
  next
    case pop
    with d have "pre \<noteq> []" and k: "k = length pre - 1" by (auto split: if_splits)
    moreover from pop e have "PopBoundBuffer s = Some s1"
      by (auto simp: defined_def split: option.splits)
    from PopBoundBuffer_Some[OF this] have "boundBufferStack s1 = tl (boundBufferStack s)" by simp
    ultimately show ?thesis using v by (cases pre) auto
  next
    case other
    from exec_boundBufferStack_frame[OF e other] v have "boundBufferStack s1 = pre @ base" by simp
    moreover from other d have "k = length pre" by (cases c) auto
    ultimately show ?thesis by blast
  qed
qed

lemma exec_all_boundBufferStack_depth:
  "exec_all fl ext drv cs s = Inr s1 \<Longrightarrow> boundBufferStack_depth cs (length pre) = Some k
   \<Longrightarrow> boundBufferStack s = pre @ base
   \<Longrightarrow> \<exists>new. boundBufferStack s1 = new @ base \<and> length new = k"
proof (induction cs arbitrary: s pre)
  case Nil
  then show ?case by simp
next
  case (Cons c cs)
  from Cons.prems(1) obtain s2 where e: "exec fl ext drv c s = Inr s2"
    and r: "exec_all fl ext drv cs s2 = Inr s1"
    by (auto split: sum.splits)
  from Cons.prems(2) obtain d1 where st: "boundBufferStack_step c (length pre) = Some d1"
    and dr: "boundBufferStack_depth cs d1 = Some k"
    by (auto split: option.splits)
  from exec_boundBufferStack_step[OF e st Cons.prems(3)]
  obtain new where n: "boundBufferStack s2 = new @ base" "length new = d1" by blast
  from Cons.IH[OF r _ n(1)] dr n(2) show ?case by simp
qed

lemma balanced_boundBufferStack:
  assumes "boundBufferStack_depth cs 0 = Some 0" and "exec_all fl ext drv cs s = Inr s1"
  shows "boundBufferStack s1 = boundBufferStack s"
  using exec_all_boundBufferStack_depth[OF assms(2), of "[]" 0 "boundBufferStack s"] assms(1)
  by simp

lemma PopState_top:
  "valueStack s1 = (C, v) # rest \<Longrightarrow>
   PopState s1 = Some ((Set C v s1)\<lparr>valueStack := rest\<rparr>)"
  by (simp add: PopState_def)

lemma PopBoundBuffer_top:
  "boundBufferStack s1 = (T, h) # rest \<Longrightarrow>
   PopBoundBuffer s1 = Some ((BindBuffer T h s1)\<lparr>boundBufferStack := rest\<rparr>)"
  by (simp add: PopBoundBuffer_def)

lemma fold_PushState:
  "valueStack (fold PushState Cs s) = map (\<lambda>C. (C, values_s s C)) (rev Cs) @ valueStack s
   \<and> values_s (fold PushState Cs s) = values_s s"
  by (induction Cs arbitrary: s) (simp_all add: PushState_def)

lemma PopStates_saved:
  "valueStack s1 = map (\<lambda>C. (C, v C)) Ds @ base \<Longrightarrow>
   \<exists>s2. PopStates (length Ds) s1 = Some s2
      \<and> valueStack s2 = base
      \<and> values_s s2 = (\<lambda>C. if C \<in> set Ds then v C else values_s s1 C)
      \<and> (distinct Ds \<longrightarrow>
           calls s2 = calls s1 @
             map (\<lambda>C. if v C then GlEnable (stateCapsMap C) else GlDisable (stateCapsMap C))
               (filter (\<lambda>C. values_s s1 C \<noteq> v C) Ds))"
proof (induction Ds arbitrary: s1)
  case Nil
  then show ?case by simp
next
  case (Cons D Ds)
  let ?s = "(Set D (v D) s1)\<lparr>valueStack := map (\<lambda>C. (C, v C)) Ds @ base\<rparr>"
  from Cons.prems have p: "PopState s1 = Some ?s" by (simp add: PopState_def)
  have vs: "valueStack ?s = map (\<lambda>C. (C, v C)) Ds @ base" by simp
  have vals: "values_s ?s = (values_s s1)(D := v D)"
    by (simp add: Set_def issue_def Let_def fun_eq_iff)
  have cl: "calls ?s = calls s1 @ (if values_s s1 D = v D then []
      else [if v D then GlEnable (stateCapsMap D) else GlDisable (stateCapsMap D)])"
    by (simp add: Set_effect)
  from Cons.IH[OF vs] obtain s2 where r: "PopStates (length Ds) ?s = Some s2"
    and b: "valueStack s2 = base"
    and w: "values_s s2 = (\<lambda>C. if C \<in> set Ds then v C else values_s ?s C)"
    and c: "distinct Ds \<longrightarrow>
           calls s2 = calls ?s @
             map (\<lambda>C. if v C then GlEnable (stateCapsMap C) else GlDisable (stateCapsMap C))
               (filter (\<lambda>C. values_s ?s C \<noteq> v C) Ds)"
    by blast
  have 1: "PopStates (length (D # Ds)) s1 = Some s2" using p r by simp
  have 2: "values_s s2 = (\<lambda>C. if C \<in> set (D # Ds) then v C else values_s s1 C)"
    by (simp add: w vals fun_eq_iff)
  have 3: "calls s2 = calls s1 @
             map (\<lambda>C. if v C then GlEnable (stateCapsMap C) else GlDisable (stateCapsMap C))
               (filter (\<lambda>C. values_s s1 C \<noteq> v C) (D # Ds))" if d: "distinct (D # Ds)"
  proof -
    have "filter (\<lambda>C. values_s ?s C \<noteq> v C) Ds = filter (\<lambda>C. values_s s1 C \<noteq> v C) Ds"
      using d by (intro filter_cong) (auto simp: vals)
    with c d cl show ?thesis by simp
  qed
  from 1 b 2 3 show ?case by blast
qed

text \<open>
  Claim C3. Let a sequence of operations of any kind run between a push and its
  matching pop, that is, be balanced on the stack in question. For a capability: after
  \<open>PushState C\<close>, the sequence and \<open>PopState\<close>, the mirror of \<open>C\<close> is what it was before
  the push and the stack is what it was; the pop issues the native transition exactly
  when the value it restores differs from the one mirrored just before it. The same
  holds for a buffer target with \<open>PushBoundBuffer\<close> and \<open>PopBoundBuffer\<close>. A push
  followed at once by its pop gives the state back unchanged, so it issues no native
  call. After the capabilities \<open>Cs\<close> have been pushed one after the other and a balanced
  sequence has run, \<open>PopStates\<close> with their number restores the mirror of each of them
  and the stack, leaves every other mirror as the sequence left it and, for distinct
  capabilities, issues one native transition for each whose value differs, last pushed
  first.
\<close>

theorem push_pop_restores:
  "(valueStack_depth cs 0 = Some 0 \<and> exec_all fl ext drv cs (PushState C s) = Inr s1 \<longrightarrow>
      (\<exists>s2. PopState s1 = Some s2
         \<and> values_s s2 C = values_s s C
         \<and> valueStack s2 = valueStack s
         \<and> calls s2 = calls s1 @
             (if values_s s1 C = values_s s C then []
              else [if values_s s C then GlEnable (stateCapsMap C)
                    else GlDisable (stateCapsMap C)])))
   \<and> (boundBufferStack_depth bs 0 = Some 0
        \<and> exec_all fl ext drv bs (PushBoundBuffer T s) = Inr t1 \<longrightarrow>
      (\<exists>s2. PopBoundBuffer t1 = Some s2
         \<and> boundBuffers s2 T = boundBuffers s T
         \<and> boundBufferStack s2 = boundBufferStack s
         \<and> calls s2 = calls t1 @
             (if boundBuffers t1 T = boundBuffers s T then []
              else [GlBindBuffer (bufferTargetsMap T) (boundBuffers s T)])))
   \<and> (valueStack_depth ps 0 = Some 0
        \<and> exec_all fl ext drv ps (fold PushState Cs s) = Inr u1 \<longrightarrow>
      (\<exists>s2. PopStates (length Cs) u1 = Some s2
         \<and> values_s s2 = (\<lambda>C. if C \<in> set Cs then values_s s C else values_s u1 C)
         \<and> valueStack s2 = valueStack s
         \<and> (distinct Cs \<longrightarrow>
              calls s2 = calls u1 @
                map (\<lambda>C. if values_s s C then GlEnable (stateCapsMap C)
                         else GlDisable (stateCapsMap C))
                  (filter (\<lambda>C. values_s u1 C \<noteq> values_s s C) (rev Cs)))))
   \<and> PopState (PushState C s) = Some s
   \<and> PopBoundBuffer (PushBoundBuffer T s) = Some s"
proof (intro conjI impI)
  assume a: "valueStack_depth cs 0 = Some 0 \<and> exec_all fl ext drv cs (PushState C s) = Inr s1"
  from balanced_valueStack[of cs fl ext drv "PushState C s" s1] a
  have "valueStack s1 = (C, values_s s C) # valueStack s"
    by (simp add: PushState_def)
  from PopState_top[OF this] show "\<exists>s2. PopState s1 = Some s2
         \<and> values_s s2 C = values_s s C
         \<and> valueStack s2 = valueStack s
         \<and> calls s2 = calls s1 @
             (if values_s s1 C = values_s s C then []
              else [if values_s s C then GlEnable (stateCapsMap C)
                    else GlDisable (stateCapsMap C)])"
    by (simp add: Set_effect)
next
  assume a: "boundBufferStack_depth bs 0 = Some 0
        \<and> exec_all fl ext drv bs (PushBoundBuffer T s) = Inr t1"
  from balanced_boundBufferStack[of bs fl ext drv "PushBoundBuffer T s" t1] a
  have "boundBufferStack t1 = (T, boundBuffers s T) # boundBufferStack s"
    by (simp add: PushBoundBuffer_def)
  from PopBoundBuffer_top[OF this] show "\<exists>s2. PopBoundBuffer t1 = Some s2
         \<and> boundBuffers s2 T = boundBuffers s T
         \<and> boundBufferStack s2 = boundBufferStack s
         \<and> calls s2 = calls t1 @
             (if boundBuffers t1 T = boundBuffers s T then []
              else [GlBindBuffer (bufferTargetsMap T) (boundBuffers s T)])"
    by (simp add: BindBuffer_effect)
next
  assume a: "valueStack_depth ps 0 = Some 0
        \<and> exec_all fl ext drv ps (fold PushState Cs s) = Inr u1"
  from balanced_valueStack[of ps fl ext drv "fold PushState Cs s" u1] a
  have "valueStack u1 = map (\<lambda>C. (C, values_s s C)) (rev Cs) @ valueStack s"
    by (simp add: fold_PushState)
  from PopStates_saved[OF this, unfolded length_rev set_rev distinct_rev]
  show "\<exists>s2. PopStates (length Cs) u1 = Some s2
         \<and> values_s s2 = (\<lambda>C. if C \<in> set Cs then values_s s C else values_s u1 C)
         \<and> valueStack s2 = valueStack s
         \<and> (distinct Cs \<longrightarrow>
              calls s2 = calls u1 @
                map (\<lambda>C. if values_s s C then GlEnable (stateCapsMap C)
                         else GlDisable (stateCapsMap C))
                  (filter (\<lambda>C. values_s u1 C \<noteq> values_s s C) (rev Cs)))"
    by blast
next
  show "PopState (PushState C s) = Some s"
    by (simp add: PopState_def PushState_def Set_def)
next
  show "PopBoundBuffer (PushBoundBuffer T s) = Some s"
    by (simp add: PopBoundBuffer_def PushBoundBuffer_def BindBuffer_def)
qed

text \<open>
  An instance of C3: between the push and the pop of \<open>BLEND\<close> the capability is
  enabled and another capability is pushed and popped; between the push and the pop of
  the array-buffer binding the slot is rebound with a base index; two capabilities are
  pushed, enabled and restored by \<open>PopStates 2\<close>. Each pop re-issues the native call
  that restores the saved value.
\<close>

theorem push_pop_restores_witness:
  "valueStack_depth [CEnable BLEND, CPushState DEPTH_TEST, CPopState] 0 = Some 0
   \<and> exec_all example_float example_ext (\<lambda>cap. False)
        [CEnable BLEND, CPushState DEPTH_TEST, CPopState] (PushState BLEND example_cache)
       = Inr (Enable BLEND (PushState BLEND example_cache))
   \<and> (\<exists>s2. PopState (Enable BLEND (PushState BLEND example_cache)) = Some s2
         \<and> values_s s2 BLEND = False
         \<and> calls s2 = calls example_cache @ [GlEnable ''GL_BLEND'', GlDisable ''GL_BLEND''])
   \<and> boundBufferStack_depth [CBindBufferBase ARRAY_BUFFER 0 4] 0 = Some 0
   \<and> exec_all example_float example_ext (\<lambda>cap. False) [CBindBufferBase ARRAY_BUFFER 0 4]
        (PushBoundBuffer ARRAY_BUFFER example_cache)
       = Inr (BindBufferBase ARRAY_BUFFER 0 4 (PushBoundBuffer ARRAY_BUFFER example_cache))
   \<and> (\<exists>s2. PopBoundBuffer (BindBufferBase ARRAY_BUFFER 0 4
                (PushBoundBuffer ARRAY_BUFFER example_cache)) = Some s2
         \<and> boundBuffers s2 ARRAY_BUFFER = 0
         \<and> calls s2 = calls example_cache @
              [GlBindBufferBase ''GL_ARRAY_BUFFER'' 0 4, GlBindBuffer ''GL_ARRAY_BUFFER'' 0])
   \<and> valueStack_depth [CEnable BLEND, CEnable DEPTH_TEST] 0 = Some 0
   \<and> exec_all example_float example_ext (\<lambda>cap. False) [CEnable BLEND, CEnable DEPTH_TEST]
        (fold PushState [BLEND, DEPTH_TEST] example_cache)
       = Inr (Enable DEPTH_TEST (Enable BLEND (fold PushState [BLEND, DEPTH_TEST] example_cache)))
   \<and> distinct [BLEND, DEPTH_TEST]
   \<and> (\<exists>s2. PopStates 2
            (Enable DEPTH_TEST (Enable BLEND (fold PushState [BLEND, DEPTH_TEST] example_cache)))
           = Some s2
         \<and> values_s s2 BLEND = False \<and> values_s s2 DEPTH_TEST = False
         \<and> valueStack s2 = valueStack example_cache
         \<and> calls s2 = calls example_cache @
              [GlEnable ''GL_BLEND'', GlEnable ''GL_DEPTH_TEST'',
               GlDisable ''GL_DEPTH_TEST'', GlDisable ''GL_BLEND''])"
proof -
  let ?u = "Enable DEPTH_TEST (Enable BLEND (fold PushState [BLEND, DEPTH_TEST] example_cache))"
  have d: "valueStack_depth [CEnable BLEND, CPushState DEPTH_TEST, CPopState] 0 = Some 0"
    by simp
  have e: "exec_all example_float example_ext (\<lambda>cap. False)
        [CEnable BLEND, CPushState DEPTH_TEST, CPopState] (PushState BLEND example_cache)
       = Inr (Enable BLEND (PushState BLEND example_cache))"
    by (simp add: defined_def PopState_def PushState_def Enable_def Set_def issue_def)
  have bd: "boundBufferStack_depth [CBindBufferBase ARRAY_BUFFER 0 4] 0 = Some 0"
    by simp
  have be: "exec_all example_float example_ext (\<lambda>cap. False) [CBindBufferBase ARRAY_BUFFER 0 4]
        (PushBoundBuffer ARRAY_BUFFER example_cache)
       = Inr (BindBufferBase ARRAY_BUFFER 0 4 (PushBoundBuffer ARRAY_BUFFER example_cache))"
    by simp
  have pd: "valueStack_depth [CEnable BLEND, CEnable DEPTH_TEST] 0 = Some 0"
    by simp
  have pe: "exec_all example_float example_ext (\<lambda>cap. False) [CEnable BLEND, CEnable DEPTH_TEST]
        (fold PushState [BLEND, DEPTH_TEST] example_cache) = Inr ?u"
    by simp
  have ds: "distinct [BLEND, DEPTH_TEST]" by simp
  have v: "values_s example_cache BLEND = False" "values_s example_cache DEPTH_TEST = False"
    "boundBuffers example_cache ARRAY_BUFFER = 0"
    by (simp_all add: example_cache_def GLStateManager_ctor_def)
  have c: "calls (Enable BLEND (PushState BLEND example_cache)) =
             calls example_cache @ [GlEnable ''GL_BLEND'']"
     "values_s (Enable BLEND (PushState BLEND example_cache)) BLEND = True"
     "calls (BindBufferBase ARRAY_BUFFER 0 4 (PushBoundBuffer ARRAY_BUFFER example_cache)) =
             calls example_cache @ [GlBindBufferBase ''GL_ARRAY_BUFFER'' 0 4]"
     "boundBuffers (BindBufferBase ARRAY_BUFFER 0 4 (PushBoundBuffer ARRAY_BUFFER example_cache))
        ARRAY_BUFFER = 4"
    using v by (simp_all add: Enable_def PushState_def issue_def BindBufferBase_def
         PushBoundBuffer_def)
  note t = push_pop_restores[where cs = "[CEnable BLEND, CPushState DEPTH_TEST, CPopState]"
      and fl = example_float and ext = example_ext and drv = "\<lambda>cap. False" and C = BLEND
      and s = example_cache and ?s1.0 = "Enable BLEND (PushState BLEND example_cache)"
      and bs = "[CBindBufferBase ARRAY_BUFFER 0 4]" and T = ARRAY_BUFFER
      and ?t1.0 = "BindBufferBase ARRAY_BUFFER 0 4 (PushBoundBuffer ARRAY_BUFFER example_cache)"
      and ps = "[CEnable BLEND, CEnable DEPTH_TEST]" and Cs = "[BLEND, DEPTH_TEST]"
      and ?u1.0 = ?u]
  from t d e obtain s2 where s2:
    "PopState (Enable BLEND (PushState BLEND example_cache)) = Some s2"
    "values_s s2 BLEND = values_s example_cache BLEND"
    "calls s2 = calls (Enable BLEND (PushState BLEND example_cache)) @
             (if values_s (Enable BLEND (PushState BLEND example_cache)) BLEND
                 = values_s example_cache BLEND then []
              else [if values_s example_cache BLEND then GlEnable (stateCapsMap BLEND)
                    else GlDisable (stateCapsMap BLEND)])"
    by blast
  from t bd be obtain t2 where t2:
    "PopBoundBuffer (BindBufferBase ARRAY_BUFFER 0 4
                (PushBoundBuffer ARRAY_BUFFER example_cache)) = Some t2"
    "boundBuffers t2 ARRAY_BUFFER = boundBuffers example_cache ARRAY_BUFFER"
    "calls t2 = calls (BindBufferBase ARRAY_BUFFER 0 4
                (PushBoundBuffer ARRAY_BUFFER example_cache)) @
             (if boundBuffers (BindBufferBase ARRAY_BUFFER 0 4
                  (PushBoundBuffer ARRAY_BUFFER example_cache)) ARRAY_BUFFER
                 = boundBuffers example_cache ARRAY_BUFFER then []
              else [GlBindBuffer (bufferTargetsMap ARRAY_BUFFER)
                      (boundBuffers example_cache ARRAY_BUFFER)])"
    by blast
  from t pd pe ds obtain u2 where u2:
    "PopStates (length [BLEND, DEPTH_TEST]) ?u = Some u2"
    "values_s u2 = (\<lambda>C. if C \<in> set [BLEND, DEPTH_TEST] then values_s example_cache C
                          else values_s ?u C)"
    "valueStack u2 = valueStack example_cache"
    "calls u2 = calls ?u @
                map (\<lambda>C. if values_s example_cache C then GlEnable (stateCapsMap C)
                         else GlDisable (stateCapsMap C))
                  (filter (\<lambda>C. values_s ?u C \<noteq> values_s example_cache C)
                     (rev [BLEND, DEPTH_TEST]))"
    by blast
  have a1: "\<exists>s2. PopState (Enable BLEND (PushState BLEND example_cache)) = Some s2
         \<and> values_s s2 BLEND = False
         \<and> calls s2 = calls example_cache @ [GlEnable ''GL_BLEND'', GlDisable ''GL_BLEND'']"
    using s2 by (simp add: v c)
  have a2: "\<exists>s2. PopBoundBuffer (BindBufferBase ARRAY_BUFFER 0 4
                (PushBoundBuffer ARRAY_BUFFER example_cache)) = Some s2
         \<and> boundBuffers s2 ARRAY_BUFFER = 0
         \<and> calls s2 = calls example_cache @
              [GlBindBufferBase ''GL_ARRAY_BUFFER'' 0 4, GlBindBuffer ''GL_ARRAY_BUFFER'' 0]"
    using t2 by (simp add: v c)
  have a3: "\<exists>s2. PopStates 2 ?u = Some s2
         \<and> values_s s2 BLEND = False \<and> values_s s2 DEPTH_TEST = False
         \<and> valueStack s2 = valueStack example_cache
         \<and> calls s2 = calls example_cache @
              [GlEnable ''GL_BLEND'', GlEnable ''GL_DEPTH_TEST'',
               GlDisable ''GL_DEPTH_TEST'', GlDisable ''GL_BLEND'']"
  proof -
    have "PopStates 2 ?u = Some u2" using u2(1) by (simp add: numeral_2_eq_2)
    moreover have "values_s u2 BLEND = False" "values_s u2 DEPTH_TEST = False"
      by (simp_all add: u2(2) v Enable_def PushState_def issue_def)
    moreover have "calls u2 = calls example_cache @
              [GlEnable ''GL_BLEND'', GlEnable ''GL_DEPTH_TEST'',
               GlDisable ''GL_DEPTH_TEST'', GlDisable ''GL_BLEND'']"
      by (simp add: u2(4) v Enable_def PushState_def issue_def)
    ultimately show ?thesis using u2(3) by blast
  qed
  from d e a1 bd be a2 pd pe ds a3 show ?thesis by blast
qed

subsection \<open>Texture layers\<close>

text \<open>
  \<open>activeTextureLayer_\<close> points at the layer whose number \<open>textureState_.activeTexture\<close>
  holds: \<open>ActiveTexture\<close> sets both together and nothing else sets either, so every
  operation keeps the two in step once they are.
\<close>

lemma PopStates_texture_frame:
  "PopStates n s = Some s1 \<Longrightarrow>
     activeTexture s1 = activeTexture s \<and> activeTextureLayer s1 = activeTextureLayer s"
proof (induction n arbitrary: s)
  case 0
  then show ?case by simp
next
  case (Suc n)
  from Suc.prems obtain s2 where p: "PopState s = Some s2" and r: "PopStates n s2 = Some s1"
    by (auto split: option.splits)
  from p have "activeTexture s2 = activeTexture s \<and> activeTextureLayer s2 = activeTextureLayer s"
    by (auto simp: PopState_def Set_def issue_def Let_def split: list.splits if_splits)
  with Suc.IH[OF r] show ?case by simp
qed

lemma SetBlendStates_loop_texture_frame:
  "activeTexture (SetBlendStates_loop ext db bs en s) = activeTexture s
   \<and> activeTextureLayer (SetBlendStates_loop ext db bs en s) = activeTextureLayer s"
  by (induction bs arbitrary: db s) (simp_all add: SetBlendState_def issue_def Let_def)

lemma Reset_loop_texture_frame:
  "activeTexture (Reset_loop drv sts s) = activeTexture s
   \<and> activeTextureLayer (Reset_loop drv sts s) = activeTextureLayer s"
  by (induction sts arbitrary: s) (simp_all add: issue_def)

lemma exec_keeps_layer_pointer:
  assumes "activeTextureLayer s = activeTexture s" and "exec fl ext drv c s = Inr s1"
  shows "activeTextureLayer s1 = activeTexture s1"
  using assms
  by (cases c)
     (auto simp: defined_def thrown_def Reset_def Set_def Enable_def Disable_def issue_def
        PushState_def PopState_def
        MakeCurrentInfo_def SetDepthRanges_def
        SetBlendStates_def SetClipControl_def SetDepthFunc_def SetPolygonMode_def
        SetCullFace_def SetFrontFace_def SetDepthMask_def BindBuffer_def BindBufferBase_def
        BindVertexArray_def ForcedBindBuffer_def PushBoundBuffer_def PopBoundBuffer_def
        ActiveTexture_def BindTexture_def ForcedBindTexture_def
        PushBoundTexture_def PopBoundTexture_def BindTexture_tex_def ForcedBindTexture_tex_def
        BindShaderProgram_def PushShaderProgram_def PopShaderProgram_def Let_def
        SetStencilState_def SetStencilState_front_def SetStencilState_back_def case_prod_beta
        SetBlendStates_loop_texture_frame Reset_loop_texture_frame
        dest: PopStates_texture_frame dest!: SetViewports_Some SetScissors_Some
        split: option.splits sum.splits if_splits list.splits)

lemma exec_all_keeps_layer_pointer:
  "activeTextureLayer s = activeTexture s \<Longrightarrow> exec_all fl ext drv cs s = Inr s1
   \<Longrightarrow> activeTextureLayer s1 = activeTexture s1"
proof (induction cs arbitrary: s)
  case Nil
  then show ?case by simp
next
  case (Cons c cs)
  from Cons.prems(2) obtain s2 where e: "exec fl ext drv c s = Inr s2"
    and r: "exec_all fl ext drv cs s2 = Inr s1"
    by (auto split: sum.splits)
  from Cons.IH[OF exec_keeps_layer_pointer[OF Cons.prems(1) e] r] show ?case .
qed









subsection \<open>Stencil state\<close>

lemma SetStencilState_to_calls:
  "snd (SetStencilState_to face to from) =
     (if sfail to \<noteq> sfail from \<or> dpfail to \<noteq> dpfail from \<or> dppass to \<noteq> dppass from
      then [GlStencilOpSeparate face (sfail from) (dpfail from) (dppass from)] else [])
     @ (if func to \<noteq> func from \<or> ref to \<noteq> ref from \<or> mask_s to \<noteq> mask_s from
        then [GlStencilFuncSeparate face (func from) (ref from) (mask_s from)] else [])
     @ (if writeMask to \<noteq> writeMask from
        then [GlStencilMaskSeparate face (writeMask from)] else [])"
  by (simp add: SetStencilState_to_def)

lemma SetStencilState_to_mirror: "fst (SetStencilState_to face to from) = from"
  by (cases to, cases "from") (simp add: SetStencilState_to_def)

lemma SetStencilState_front_effect:
  "calls (SetStencilState_front st s) =
     calls s @ snd (SetStencilState_to ''GL_FRONT'' (stencil_front (commonState s)) st)"
  "stencil_front (commonState (SetStencilState_front st s)) = st"
  "stencil_back (commonState (SetStencilState_front st s)) = stencil_back (commonState s)"
  by (simp_all add: SetStencilState_front_def Let_def case_prod_beta SetStencilState_to_mirror)

lemma SetStencilState_back_effect:
  "calls (SetStencilState_back st s) =
     calls s @ snd (SetStencilState_to ''GL_BACK'' (stencil_back (commonState s)) st)"
  "stencil_back (commonState (SetStencilState_back st s)) = st"
  "stencil_front (commonState (SetStencilState_back st s)) = stencil_front (commonState s)"
  by (simp_all add: SetStencilState_back_def Let_def case_prod_beta SetStencilState_to_mirror)

text \<open>
  Claim C7. The stencil setter checks its three sub-fields one by one: it issues
  \<open>glStencilOpSeparate\<close> exactly when the op triplet differs from the mirror,
  \<open>glStencilFuncSeparate\<close> exactly when the func/ref/mask triplet differs and
  \<open>glStencilMaskSeparate\<close> exactly when the write mask differs, and the mirror then
  equals the requested state. A request that changes only the write mask of a face
  issues only the write-mask call. \<open>GL_FRONT_AND_BACK\<close> is the setter on the front
  mirror followed by the setter on the back mirror, each compared on its own.
\<close>

theorem stencil_subfields:
  "snd (SetStencilState_to face to from) =
     (if sfail to \<noteq> sfail from \<or> dpfail to \<noteq> dpfail from \<or> dppass to \<noteq> dppass from
      then [GlStencilOpSeparate face (sfail from) (dpfail from) (dppass from)] else [])
     @ (if func to \<noteq> func from \<or> ref to \<noteq> ref from \<or> mask_s to \<noteq> mask_s from
        then [GlStencilFuncSeparate face (func from) (ref from) (mask_s from)] else [])
     @ (if writeMask to \<noteq> writeMask from
        then [GlStencilMaskSeparate face (writeMask from)] else [])
   \<and> fst (SetStencilState_to face to from) = from
   \<and> (m \<noteq> writeMask (stencil_front (commonState s)) \<longrightarrow>
        calls (SetStencilState ''GL_FRONT'' ((stencil_front (commonState s))\<lparr>writeMask := m\<rparr>) s) =
          calls s @ [GlStencilMaskSeparate ''GL_FRONT'' m])
   \<and> (m \<noteq> writeMask (stencil_back (commonState s)) \<longrightarrow>
        calls (SetStencilState ''GL_BACK'' ((stencil_back (commonState s))\<lparr>writeMask := m\<rparr>) s) =
          calls s @ [GlStencilMaskSeparate ''GL_BACK'' m])
   \<and> SetStencilState ''GL_FRONT_AND_BACK'' st s =
       SetStencilState ''GL_BACK'' st (SetStencilState ''GL_FRONT'' st s)
   \<and> calls (SetStencilState ''GL_FRONT_AND_BACK'' st s) =
       calls s @ snd (SetStencilState_to ''GL_FRONT'' (stencil_front (commonState s)) st)
         @ snd (SetStencilState_to ''GL_BACK'' (stencil_back (commonState s)) st)
   \<and> stencil_front (commonState (SetStencilState ''GL_FRONT_AND_BACK'' st s)) = st
   \<and> stencil_back (commonState (SetStencilState ''GL_FRONT_AND_BACK'' st s)) = st"
  by (simp add: SetStencilState_to_calls SetStencilState_to_mirror SetStencilState_def
        SetStencilState_front_effect SetStencilState_back_effect)

text \<open>
  An instance of C7: a new write mask on the example cache issues only
  \<open>glStencilMaskSeparate\<close>, once for \<open>GL_FRONT\<close> and, with \<open>GL_FRONT_AND_BACK\<close>, once
  for each face.
\<close>

theorem stencil_subfields_witness:
  "(0x0F::GLuint) \<noteq> writeMask (stencil_front (commonState example_cache))
   \<and> calls (SetStencilState ''GL_FRONT''
        ((stencil_front (commonState example_cache))\<lparr>writeMask := 0x0F\<rparr>) example_cache) =
       calls example_cache @ [GlStencilMaskSeparate ''GL_FRONT'' 0x0F]
   \<and> (0x0F::GLuint) \<noteq> writeMask (stencil_back (commonState example_cache))
   \<and> calls (SetStencilState ''GL_BACK''
        ((stencil_back (commonState example_cache))\<lparr>writeMask := 0x0F\<rparr>) example_cache) =
       calls example_cache @ [GlStencilMaskSeparate ''GL_BACK'' 0x0F]
   \<and> calls (SetStencilState ''GL_FRONT_AND_BACK'' (example_stencil\<lparr>writeMask := 0x0F\<rparr>)
        example_cache) =
       calls example_cache @ [GlStencilMaskSeparate ''GL_FRONT'' 0x0F,
         GlStencilMaskSeparate ''GL_BACK'' 0x0F]"
proof -
  let ?st = "example_stencil\<lparr>writeMask := 0x0F\<rparr>"
  have a: "stencil_front (commonState example_cache) = example_stencil"
    "stencil_back (commonState example_cache) = example_stencil"
    by (simp_all add: example_cache_def example_init_def GLStateManager_ctor_def)
  have w: "(0x0F::GLuint) \<noteq> writeMask example_stencil" by (simp add: example_stencil_def)
  note t = stencil_subfields[of _ example_stencil ?st "0x0F" example_cache ?st]
  have c: "snd (SetStencilState_to face example_stencil ?st) = [GlStencilMaskSeparate face 0x0F]"
    for face
    using t[of face] w by simp
  have h: "(0x0F::GLuint) \<noteq> writeMask (stencil_front (commonState example_cache))"
    "(0x0F::GLuint) \<noteq> writeMask (stencil_back (commonState example_cache))"
    by (simp_all add: a example_stencil_def)
  from t[of "''GL_FRONT''"] h have c1: "calls (SetStencilState ''GL_FRONT''
        ((stencil_front (commonState example_cache))\<lparr>writeMask := 0x0F\<rparr>) example_cache) =
       calls example_cache @ [GlStencilMaskSeparate ''GL_FRONT'' 0x0F]"
    by blast
  from t[of "''GL_FRONT''"] h have c2: "calls (SetStencilState ''GL_BACK''
        ((stencil_back (commonState example_cache))\<lparr>writeMask := 0x0F\<rparr>) example_cache) =
       calls example_cache @ [GlStencilMaskSeparate ''GL_BACK'' 0x0F]"
    by blast
  from t[of "''GL_FRONT''"] have "calls (SetStencilState ''GL_FRONT_AND_BACK'' ?st example_cache) =
       calls example_cache
         @ snd (SetStencilState_to ''GL_FRONT'' (stencil_front (commonState example_cache)) ?st)
         @ snd (SetStencilState_to ''GL_BACK'' (stencil_back (commonState example_cache)) ?st)"
    by blast
  then have c3: "calls (SetStencilState ''GL_FRONT_AND_BACK'' ?st example_cache) =
       calls example_cache @ [GlStencilMaskSeparate ''GL_FRONT'' 0x0F,
         GlStencilMaskSeparate ''GL_BACK'' 0x0F]"
    by (simp only: a c append_Cons append_Nil)
  from h c1 c2 c3 show ?thesis by blast
qed

subsection \<open>Texture objects\<close>

lemma GetTextureTarget_throws:
  "ty \<notin> {Texture1D, Texture2D, Texture3D, TextureCube, Texture1DArray, Texture2DArray, TextureCubeArray}
   \<Longrightarrow> GetTextureTarget ty = Inl (invalid_argument ''failed to convert texture type to OpenGL texture target'')"
  by (cases ty) simp_all

lemma GetTextureTarget_maps:
  "ty \<in> {Texture1D, Texture2D, Texture3D, TextureCube, Texture1DArray, Texture2DArray, TextureCubeArray}
   \<Longrightarrow> \<exists>t. GetTextureTarget ty = Inr t"
  by (cases ty) simp_all

text \<open>
  Claim C9. For a texture whose type is none of the seven that \<open>GetTextureTarget\<close>
  maps, \<open>BindTexture\<close> and \<open>ForcedBindTexture\<close> of the texture object throw
  \<open>std::invalid_argument\<close> and leave the state manager as it was: no mirror is updated
  and no native call is issued. For the seven mapped types the conversion returns a
  target and the call is the bind of that target.
\<close>

theorem BindTexture_tex_throws:
  "(GetType texture \<notin> {Texture1D, Texture2D, Texture3D, TextureCube, Texture1DArray,
                         Texture2DArray, TextureCubeArray} \<longrightarrow>
      BindTexture_tex texture s =
        Inl (invalid_argument ''failed to convert texture type to OpenGL texture target'', s)
      \<and> ForcedBindTexture_tex texture s =
        Inl (invalid_argument ''failed to convert texture type to OpenGL texture target'', s))
   \<and> (GetType texture \<in> {Texture1D, Texture2D, Texture3D, TextureCube, Texture1DArray,
                         Texture2DArray, TextureCubeArray} \<longrightarrow>
      (\<exists>target. GetTextureTarget (GetType texture) = Inr target
         \<and> BindTexture_tex texture s = Inr (BindTexture target (GetID texture) s)
         \<and> ForcedBindTexture_tex texture s = Inr (ForcedBindTexture target (GetID texture) s)))"
proof (intro conjI impI)
  assume "GetType texture \<notin> {Texture1D, Texture2D, Texture3D, TextureCube, Texture1DArray,
                         Texture2DArray, TextureCubeArray}"
  from GetTextureTarget_throws[OF this]
  show "BindTexture_tex texture s =
        Inl (invalid_argument ''failed to convert texture type to OpenGL texture target'', s)"
   and "ForcedBindTexture_tex texture s =
        Inl (invalid_argument ''failed to convert texture type to OpenGL texture target'', s)"
    by (simp_all add: BindTexture_tex_def ForcedBindTexture_tex_def)
next
  assume "GetType texture \<in> {Texture1D, Texture2D, Texture3D, TextureCube, Texture1DArray,
                         Texture2DArray, TextureCubeArray}"
  from GetTextureTarget_maps[OF this] obtain t where "GetTextureTarget (GetType texture) = Inr t" ..
  then show "\<exists>target. GetTextureTarget (GetType texture) = Inr target
         \<and> BindTexture_tex texture s = Inr (BindTexture target (GetID texture) s)
         \<and> ForcedBindTexture_tex texture s = Inr (ForcedBindTexture target (GetID texture) s)"
    by (simp add: BindTexture_tex_def ForcedBindTexture_tex_def)
qed

text \<open>
  An instance of C9: a multisample texture throws, a cube texture binds
  \<open>TEXTURE_CUBE_MAP\<close>.
\<close>

theorem BindTexture_tex_throws_witness:
  "Texture2DMS \<notin> {Texture1D, Texture2D, Texture3D, TextureCube, Texture1DArray,
                     Texture2DArray, TextureCubeArray}
   \<and> BindTexture_tex \<lparr>GetType = Texture2DMS, GetID = 4\<rparr> example_cache =
       Inl (invalid_argument ''failed to convert texture type to OpenGL texture target'',
            example_cache)
   \<and> TextureCube \<in> {Texture1D, Texture2D, Texture3D, TextureCube, Texture1DArray,
                     Texture2DArray, TextureCubeArray}
   \<and> BindTexture_tex \<lparr>GetType = TextureCube, GetID = 4\<rparr> example_cache =
       Inr (BindTexture TEXTURE_CUBE_MAP 4 example_cache)"
  using BindTexture_tex_throws[of "\<lparr>GetType = Texture2DMS, GetID = 4\<rparr>" example_cache]
    BindTexture_tex_throws[of "\<lparr>GetType = TextureCube, GetID = 4\<rparr>" example_cache]
  by simp

subsection \<open>Construction and reset\<close>

lemma Reset_loop_calls:
  "calls (Reset_loop drv sts s) = calls s @ map (\<lambda>st. GlIsEnabled (stateCapsMap st)) sts"
  by (induction sts arbitrary: s) (simp_all add: issue_def)

text \<open>
  Claim C10. The constructor sets every capability mirror to false and every buffer
  slot and every texture slot of every layer to 0, points the active texture layer at
  layer 0 and stores the new object in the static \<open>active\<close>, whatever \<open>active\<close> held: a
  second construction redirects it. The constructor issues no native call; it is
  \<open>Reset\<close> that queries the driver, once for each capability.
\<close>

theorem ctor_initial_state:
  "values_s (fst (GLStateManager_ctor this init act)) = (\<lambda>state. False)
   \<and> boundBuffers (fst (GLStateManager_ctor this init act)) = (\<lambda>target. 0)
   \<and> layers (fst (GLStateManager_ctor this init act)) = (\<lambda>layer target. 0)
   \<and> activeTextureLayer (fst (GLStateManager_ctor this init act)) = 0
   \<and> snd (GLStateManager_ctor this init act) = Some this
   \<and> calls (fst (GLStateManager_ctor this init act)) = calls init
   \<and> snd (GLStateManager_ctor this2 init2 (snd (GLStateManager_ctor this init act))) = Some this2
   \<and> calls (Reset drv s) = calls s @ map (\<lambda>st. GlIsEnabled (stateCapsMap st)) allStates"
  by (simp add: GLStateManager_ctor_def Reset_def Reset_loop_calls)

text \<open>
  An instance of C10: the example object, whose tables hold stale values, after
  construction at address 1, and a second construction at address 2.
\<close>

theorem ctor_initial_state_witness:
  "values_s example_init BLEND \<and> \<not> values_s example_cache BLEND
   \<and> boundBuffers example_init ARRAY_BUFFER = 0xCDCDCDCD
   \<and> boundBuffers example_cache ARRAY_BUFFER = 0
   \<and> layers example_cache 31 TEXTURE_2D = 0
   \<and> activeTextureLayer example_init = 31 \<and> activeTextureLayer example_cache = 0
   \<and> calls example_cache = []
   \<and> snd (GLStateManager_ctor 1 example_init None) = Some 1
   \<and> snd (GLStateManager_ctor 2 example_init (snd (GLStateManager_ctor 1 example_init None)))
       = Some 2"
proof -
  note t = ctor_initial_state[of 1 example_init None 2 example_init "\<lambda>cap. False" example_cache]
  have a: "values_s example_init BLEND" "boundBuffers example_init ARRAY_BUFFER = 0xCDCDCDCD"
    "activeTextureLayer example_init = 31" "calls example_init = []"
    by (simp_all add: example_init_def)
  from t have c: "values_s example_cache = (\<lambda>state. False)"
    "boundBuffers example_cache = (\<lambda>target. 0)"
    "layers example_cache = (\<lambda>layer target. 0)"
    "activeTextureLayer example_cache = 0"
    "calls example_cache = calls example_init"
    unfolding example_cache_def by blast+
  from t have g: "snd (GLStateManager_ctor 1 example_init None) = Some 1"
    "snd (GLStateManager_ctor 2 example_init (snd (GLStateManager_ctor 1 example_init None)))
       = Some 2"
    by blast+
  show ?thesis using a g by (simp add: c)
qed

section \<open>Properties of the validation decorator\<close>

lemma DbgCommandBuffer_call_forwards:
  "instance_calls (DbgCommandBuffer_call caps call st) = instance_calls st @ [call]"
proof -
  have "instance_calls (track call st1) = instance_calls st1" for st1
    by (cases call) (simp_all add: track_def)
  then show ?thesis by (simp add: DbgCommandBuffer_call_def Let_def)
qed

lemma DbgCommandBuffer_calls_forwards:
  "instance_calls (DbgCommandBuffer_calls caps cs st) = instance_calls st @ cs"
  by (induction cs arbitrary: st) (simp_all add: DbgCommandBuffer_call_forwards)

lemma DbgCommandBuffer_call_reports:
  "debugger_reports (DbgCommandBuffer_call caps call st) =
     debugger_reports st @ validate caps st call"
proof -
  have "debugger_reports (track call st1) = debugger_reports st1" for st1
    by (cases call) (simp_all add: track_def)
  then show ?thesis by (simp add: DbgCommandBuffer_call_def Let_def)
qed

lemma count_IndexBufferNotSet:
  "bindings_indexBuffer st = None \<Longrightarrow>
   count_list (DebugDrawIndexed st n i f v off) IndexBufferNotSet = 1"
  by (simp add: DebugDrawIndexed_def DebugGraphicsPipelineSet_def DebugStreamOutputBusy_def
       DebugVertexBufferSet_def DebugIndexBufferSet_def DebugVertexLayout_def
       DebugNumVertices_def DebugNumInstances_def
       split: option.splits)

text \<open>
  Claim C8. The decorator forwards every operation to the wrapped implementation
  whatever its checks report: after one operation the calls received by \<open>instance\<close> are
  those before and the operation itself, and a sequence of operations arrives whole and
  in order. \<open>DrawIndexed\<close> with no index buffer bound reports the missing index buffer
  exactly once, and when nothing else is amiss that is the only report.
\<close>

theorem decorator_forwards:
  "instance_calls (DbgCommandBuffer_call caps call st) = instance_calls st @ [call]
   \<and> instance_calls (DbgCommandBuffer_calls caps cs st) = instance_calls st @ cs
   \<and> debugger_reports (DbgCommandBuffer_call caps (DrawIndexed n f) st) =
       debugger_reports st @ DebugDrawIndexed st n 1 f 0 0
   \<and> (bindings_indexBuffer st = None \<longrightarrow>
        count_list (DebugDrawIndexed st n 1 f 0 0) IndexBufferNotSet = 1)
   \<and> (bindings_indexBuffer st = None \<and> bindings_graphicsPipeline st = Some p
        \<and> bindings_vertexBuffer st = Some vb \<and> buffer_format vb = pipeline_vertexFormat p
        \<and> \<not> states_streamOutputBusy st \<and> DebugNumVertices st n = [] \<longrightarrow>
        debugger_reports (DbgCommandBuffer_call caps (DrawIndexed n f) st) =
          debugger_reports st @ [IndexBufferNotSet])"
proof -
  have "debugger_reports (DbgCommandBuffer_call caps (DrawIndexed n f) st) =
          debugger_reports st @ [IndexBufferNotSet]"
    if "bindings_indexBuffer st = None \<and> bindings_graphicsPipeline st = Some p
        \<and> bindings_vertexBuffer st = Some vb \<and> buffer_format vb = pipeline_vertexFormat p
        \<and> \<not> states_streamOutputBusy st \<and> DebugNumVertices st n = []"
    using that
    by (simp add: DbgCommandBuffer_call_reports validate_def
        DebugDrawIndexed_def DebugGraphicsPipelineSet_def DebugStreamOutputBusy_def
        DebugVertexBufferSet_def DebugIndexBufferSet_def DebugVertexLayout_def
        DebugNumInstances_def)
  moreover have "debugger_reports (DbgCommandBuffer_call caps (DrawIndexed n f) st) =
       debugger_reports st @ DebugDrawIndexed st n 1 f 0 0"
    by (simp add: DbgCommandBuffer_call_reports validate_def)
  ultimately show ?thesis
    using DbgCommandBuffer_call_forwards[of caps call st]
      DbgCommandBuffer_calls_forwards[of caps cs st]
      count_IndexBufferNotSet[of st n 1 f 0 0]
    by blast
qed

text \<open>
  An instance of C8: with a pipeline and a vertex buffer bound but no index buffer,
  \<open>DrawIndexed(6, 0)\<close> reports \<open>IndexBufferNotSet\<close> alone and is forwarded; on a
  decorator with nothing bound it reports three violations and is forwarded all the
  same.
\<close>

theorem decorator_forwards_witness:
  "bindings_indexBuffer
     (DbgCommandBuffer_calls example_caps
        [SetGraphicsPipeline example_pipeline, SetVertexBuffer example_vertexBuffer]
        DbgCommandBuffer_ctor) = None
   \<and> DbgCommandBuffer_call example_caps (DrawIndexed 6 0)
       (DbgCommandBuffer_calls example_caps
          [SetGraphicsPipeline example_pipeline, SetVertexBuffer example_vertexBuffer]
          DbgCommandBuffer_ctor)
     = (DbgCommandBuffer_calls example_caps
          [SetGraphicsPipeline example_pipeline, SetVertexBuffer example_vertexBuffer]
          DbgCommandBuffer_ctor)
        \<lparr>instance_calls :=
           [SetGraphicsPipeline example_pipeline, SetVertexBuffer example_vertexBuffer,
            DrawIndexed 6 0],
         debugger_reports := [IndexBufferNotSet],
         profiler_drawCalls := 1\<rparr>
   \<and> bindings_indexBuffer DbgCommandBuffer_ctor = None
   \<and> count_list (DebugDrawIndexed DbgCommandBuffer_ctor 6 1 0 0 0) IndexBufferNotSet = 1
   \<and> debugger_reports (DbgCommandBuffer_call example_caps (DrawIndexed 6 0)
        DbgCommandBuffer_ctor) =
       [GraphicsPipelineNotSet, VertexBufferNotSet, IndexBufferNotSet]
   \<and> instance_calls (DbgCommandBuffer_call example_caps (DrawIndexed 6 0)
        DbgCommandBuffer_ctor) = [DrawIndexed 6 0]"
proof -
  let ?st = "DbgCommandBuffer_calls example_caps
        [SetGraphicsPipeline example_pipeline, SetVertexBuffer example_vertexBuffer]
        DbgCommandBuffer_ctor"
  have st: "?st = \<lparr>topology = TriangleList, vertexFormat = [''position'', ''color''],
     bindings_vertexBuffer = Some example_vertexBuffer, bindings_indexBuffer = None,
     bindings_streamOutput = None,
     bindings_graphicsPipeline = Some example_pipeline, bindings_computePipeline = None,
     states_streamOutputBusy = False,
     instance_calls = [SetGraphicsPipeline example_pipeline, SetVertexBuffer example_vertexBuffer],
     debugger_reports = [], profiler_drawCalls = 0\<rparr>"
    by (simp add: DbgCommandBuffer_call_def DbgCommandBuffer_ctor_def validate_def track_def
          isDrawCall_def DebugBufferType_def example_vertexBuffer_def example_pipeline_def
          Let_def)
  have nv: "DebugNumVertices ?st 6 = []"
    by (simp only: st) (simp add: DebugNumVertices_def verticesPerPrimitive_def)
  have fm: "buffer_format example_vertexBuffer = pipeline_vertexFormat example_pipeline"
    by (simp add: example_vertexBuffer_def example_pipeline_def)
  have h: "bindings_indexBuffer ?st = None \<and> bindings_graphicsPipeline ?st = Some example_pipeline
        \<and> bindings_vertexBuffer ?st = Some example_vertexBuffer
        \<and> buffer_format example_vertexBuffer = pipeline_vertexFormat example_pipeline
        \<and> \<not> states_streamOutputBusy ?st \<and> DebugNumVertices ?st 6 = []"
    using nv fm by (simp only: st) simp
  have r: "debugger_reports (DbgCommandBuffer_call example_caps (DrawIndexed 6 0) ?st) =
          debugger_reports ?st @ [IndexBufferNotSet]"
    using decorator_forwards[of example_caps "DrawIndexed 6 0" ?st "[]" 6 0 example_pipeline
        example_vertexBuffer] h
    by blast
  have f: "instance_calls (DbgCommandBuffer_call example_caps (DrawIndexed 6 0) ?st) =
          instance_calls ?st @ [DrawIndexed 6 0]"
    using decorator_forwards[of example_caps "DrawIndexed 6 0" ?st "[]" 6 0 example_pipeline
        example_vertexBuffer]
    by blast
  have e: "DbgCommandBuffer_call example_caps (DrawIndexed 6 0) ?st =
      ?st\<lparr>instance_calls := instance_calls ?st @ [DrawIndexed 6 0],
          debugger_reports := debugger_reports ?st @ [IndexBufferNotSet],
          profiler_drawCalls := 1\<rparr>"
    using r f
    by (simp only: st) (simp add: DbgCommandBuffer_call_def track_def isDrawCall_def Let_def)
  have c: "debugger_reports (DbgCommandBuffer_call example_caps (DrawIndexed 6 0)
        DbgCommandBuffer_ctor) =
       [GraphicsPipelineNotSet, VertexBufferNotSet, IndexBufferNotSet]"
       "instance_calls (DbgCommandBuffer_call example_caps (DrawIndexed 6 0)
        DbgCommandBuffer_ctor) = [DrawIndexed 6 0]"
    using decorator_forwards[of example_caps "DrawIndexed 6 0" DbgCommandBuffer_ctor "[]" 6 0
        example_pipeline example_vertexBuffer]
    by (simp_all add: DbgCommandBuffer_ctor_def DebugDrawIndexed_def DebugGraphicsPipelineSet_def
          DebugStreamOutputBusy_def DebugVertexBufferSet_def DebugIndexBufferSet_def
          DebugVertexLayout_def DebugNumVertices_def DebugNumInstances_def
          verticesPerPrimitive_def)
  have n: "bindings_indexBuffer DbgCommandBuffer_ctor = None"
    by (simp add: DbgCommandBuffer_ctor_def)
  with decorator_forwards[of example_caps "DrawIndexed 6 0" DbgCommandBuffer_ctor "[]" 6 0
        example_pipeline example_vertexBuffer]
  have k: "count_list (DebugDrawIndexed DbgCommandBuffer_ctor 6 1 0 0 0) IndexBufferNotSet = 1"
    by blast
  show ?thesis using e c n k by (simp only: st) simp
qed

end
